theory Spec2Isabelle
  imports Main "HOL-Library.AList" "HOL-Library.Char_ord" "HOL-Library.List_Lexorder"
begin

section \<open>The admission plugin pipeline of k8s.io/apiserver/pkg/admission\<close>

text \<open>
  The development embeds \<^verbatim>\<open>chain.go\<close> and \<^verbatim>\<open>plugins.go\<close> of the vendored package
  \<^verbatim>\<open>k8s.io/apiserver/pkg/admission\<close>, together with the interface declarations they use.

  Conventions of the embedding.
  \<^item> Go code behind an interface (plugins, factories, initializers, the configuration
    provider, the decorator, the enablement predicate) is arbitrary code: it is a function
    from the memory it may touch to a result and the new memory.
  \<^item> The memory holds the program state plugin code owns (\<open>user\<close>) and the heap cells
    that \<^verbatim>\<open>splitStream\<close> allocates: byte arrays and \<^verbatim>\<open>*bytes.Buffer\<close> objects, by address.
  \<^item> The world is the memory plus a call log. The embedded functions append one entry
    for every call they make through an interface and for every \<^verbatim>\<open>klog\<close> line they
    print; plugin code has no access to the log.
  \<^item> \<^verbatim>\<open>nil\<close> is a value exactly where the source compares against it or returns it
    (a plugin, a configuration reader, the decorator, an error, the registry map).
    Elsewhere a \<^verbatim>\<open>nil\<close> receiver would panic in Go, and the types here exclude it.
  \<^item> A function in which the embedded code itself can panic returns a \<open>completion\<close>:
    \<open>Panic\<close> with the message of the run-time panic, or \<open>Return\<close> with what it returns.
    A panic passes through every caller, none of which recovers.
  \<^item> The mutex of \<^verbatim>\<open>Plugins\<close> is not modelled: execution is sequential.
\<close>

subsection \<open>Errors\<close>

text \<open>
  \<open>Opaque\<close> is an error value made outside the embedded code, with its message.
  The other constructors are the three \<^verbatim>\<open>fmt.Errorf\<close> calls of \<^verbatim>\<open>InitPlugin\<close>.
\<close>

datatype error =
    Opaque string
  | CouldntInit string error
  | UnknownPlugin string
  | FailedToInitialize string error

text \<open>The message of an error; \<open>q\<close> is the quoting of the verb \<^verbatim>\<open>%q\<close>.\<close>

fun error_text :: "(string \<Rightarrow> string) \<Rightarrow> error \<Rightarrow> string" where
  "error_text q (Opaque s) = s"
| "error_text q (CouldntInit name err) =
     ''couldn't init admission plugin '' @ q name @ '': '' @ error_text q err"
| "error_text q (UnknownPlugin name) = ''unknown admission plugin: '' @ name"
| "error_text q (FailedToInitialize name err) =
     ''failed to initialize admission plugin '' @ q name @ '': '' @ error_text q err"

text \<open>How a call ends that may panic.\<close>

datatype 'a completion =
    Panic string
  | Return 'a

subsection \<open>Memory: byte arrays and buffers\<close>

text \<open>
  A \<^verbatim>\<open>bytes.Buffer\<close> is a slice of a backing array (the array's address and the slice's
  length) and the read offset \<^verbatim>\<open>off\<close>.
\<close>

record Buffer =
  buf_array :: nat
  buf_len :: nat
  off :: nat

record 's mem =
  arrays :: "nat \<Rightarrow> char list"
  next_array :: nat
  buffers :: "nat \<Rightarrow> Buffer"
  next_buffer :: nat
  user :: 's

text \<open>
  A stream is what can be read: a pointer to a buffer of the heap, or any other source,
  given by what \<^verbatim>\<open>ioutil.ReadAll\<close> obtains from it (the bytes it delivers and the error
  that ends them, \<open>None\<close> for \<^verbatim>\<open>io.EOF\<close>). A source that never ends has no
  \<^verbatim>\<open>ReadAll\<close> result and is not a value of this type.

  An \<^verbatim>\<open>io.Reader\<close> value is the \<^verbatim>\<open>nil\<close> interface, a typed \<^verbatim>\<open>nil\<close> (a \<^verbatim>\<open>nil\<close>
  pointer, say), or a non-nil value that reads a stream. The kind of its dynamic type
  matters to \<^verbatim>\<open>reflect.Value.IsNil\<close>: \<open>Reader\<close> is a non-nil value of a kind that can be
  \<^verbatim>\<open>nil\<close> (a pointer such as \<^verbatim>\<open>*bytes.Buffer\<close>, or a chan, func, map or slice),
  \<open>ValueReader\<close> a value of one of the other kinds, on which \<^verbatim>\<open>IsNil\<close> panics: a struct
  such as \<^verbatim>\<open>http.NoBody\<close>, \<^verbatim>\<open>bufio.ReadWriter\<close> or any struct that embeds a reader, an
  array, or a named basic type with a \<^verbatim>\<open>Read\<close> method. \<open>Kind\<close> lists these kinds of
  package \<^verbatim>\<open>reflect\<close> (\<open>StructKind\<close> is \<^verbatim>\<open>reflect.Struct\<close>), and \<open>kind_name\<close> is
  \<^verbatim>\<open>Kind.String\<close> on them.
\<close>

datatype Kind =
    BoolKind | IntKind | Int8Kind | Int16Kind | Int32Kind | Int64Kind
  | UintKind | Uint8Kind | Uint16Kind | Uint32Kind | Uint64Kind | UintptrKind
  | Float32Kind | Float64Kind | Complex64Kind | Complex128Kind
  | ArrayKind | StringKind | StructKind

fun kind_name :: "Kind \<Rightarrow> string" where
  "kind_name BoolKind = ''bool''"
| "kind_name IntKind = ''int''"
| "kind_name Int8Kind = ''int8''"
| "kind_name Int16Kind = ''int16''"
| "kind_name Int32Kind = ''int32''"
| "kind_name Int64Kind = ''int64''"
| "kind_name UintKind = ''uint''"
| "kind_name Uint8Kind = ''uint8''"
| "kind_name Uint16Kind = ''uint16''"
| "kind_name Uint32Kind = ''uint32''"
| "kind_name Uint64Kind = ''uint64''"
| "kind_name UintptrKind = ''uintptr''"
| "kind_name Float32Kind = ''float32''"
| "kind_name Float64Kind = ''float64''"
| "kind_name Complex64Kind = ''complex64''"
| "kind_name Complex128Kind = ''complex128''"
| "kind_name ArrayKind = ''array''"
| "kind_name StringKind = ''string''"
| "kind_name StructKind = ''struct''"

datatype stream =
    BufferPtr nat
  | Source "char list" "error option"

datatype reader =
    NilInterface
  | NilPointer
  | Reader stream
  | ValueReader Kind stream

subsection \<open>Requests\<close>

text \<open>\<^verbatim>\<open>type Operation string\<close>\<close>

type_synonym Operation = string

definition Create :: Operation where "Create = ''CREATE''"
definition Update :: Operation where "Update = ''UPDATE''"
definition Delete :: Operation where "Delete = ''DELETE''"
definition Connect :: Operation where "Connect = ''CONNECT''"

text \<open>
  The getters of \<^verbatim>\<open>Attributes\<close> that return plain data. The objects of the request live
  in the memory, where mutating plugins edit them in place.
\<close>

record Attributes =
  GetName :: string
  GetNamespace :: string
  GetSubresource :: string
  GetOperation :: Operation
  IsDryRun :: bool

datatype ObjectInterfaces = ObjectInterfaces

subsection \<open>Plugins\<close>

text \<open>
  A non-nil \<^verbatim>\<open>Interface\<close> value. Every plugin has \<^verbatim>\<open>Handles\<close>. Its dynamic type may
  also have \<^verbatim>\<open>Admit\<close> (then it is a \<^verbatim>\<open>MutationInterface\<close>), \<^verbatim>\<open>Validate\<close> (a
  \<^verbatim>\<open>ValidationInterface\<close>) and \<^verbatim>\<open>ValidateInitialization\<close> (an
  \<^verbatim>\<open>InitializationValidator\<close>): a type assertion succeeds exactly when the method is there.
\<close>

record 's plugin =
  Handles_m :: "Operation \<Rightarrow> 's mem \<Rightarrow> bool \<times> 's mem"
  Admit_m :: "(Attributes \<Rightarrow> ObjectInterfaces \<Rightarrow> 's mem \<Rightarrow> error option \<times> 's mem) option"
  Validate_m :: "(Attributes \<Rightarrow> ObjectInterfaces \<Rightarrow> 's mem \<Rightarrow> error option \<times> 's mem) option"
  ValidateInitialization_m :: "('s mem \<Rightarrow> error option \<times> 's mem) option"

text \<open>\<^verbatim>\<open>type Factory func(config io.Reader) (Interface, error)\<close>\<close>

type_synonym 's Factory = "reader \<Rightarrow> 's mem \<Rightarrow> ('s plugin option \<times> error option) \<times> 's mem"

text \<open>
  A \<^verbatim>\<open>PluginInitializer\<close> is either some initializer from outside or the slice type
  \<^verbatim>\<open>PluginInitializers\<close> of this package.
\<close>

datatype 's PluginInitializer =
    Initializer "'s plugin option \<Rightarrow> 's mem \<Rightarrow> 's mem"
  | PluginInitializers "'s PluginInitializer list"

subsection \<open>The call log\<close>

datatype 's event =
    CallHandles "'s plugin" Operation bool
  | CallAdmit "'s plugin" "error option"
  | CallValidate "'s plugin" "error option"
  | CallConfigFor string reader "error option"
  | CallPluginEnabledFn string reader bool
  | CallFactory string reader "'s plugin option" "error option"
  | CallInitialize "'s plugin option \<Rightarrow> 's mem \<Rightarrow> 's mem" "'s plugin option"
  | CallValidateInitialization "'s plugin" "error option"
  | CallDecorate "'s plugin" string "'s plugin"
  | InfoNoPluginSpecified
  | InfoLoadedMutating "string list"
  | InfoLoadedValidating "string list"

record 's world =
  mem :: "'s mem"
  log :: "'s event list"

subsection \<open>chain.go\<close>

text \<open>\<^verbatim>\<open>type chainAdmissionHandler []Interface\<close>\<close>

type_synonym 's chainAdmissionHandler = "'s plugin list"

definition NewChainHandler :: "'s plugin list \<Rightarrow> 's chainAdmissionHandler" where
  "NewChainHandler handlers = handlers"

text \<open>The three method calls the chain makes on a member, each logged.\<close>

definition call_Handles ::
  "'s plugin \<Rightarrow> Operation \<Rightarrow> 's world \<Rightarrow> bool \<times> 's world" where
  "call_Handles handler operation w =
     (case Handles_m handler operation (mem w) of
        (b, m) \<Rightarrow> (b, \<lparr>mem = m, log = log w @ [CallHandles handler operation b]\<rparr>))"





text \<open>\<^verbatim>\<open>func (admissionHandler chainAdmissionHandler) Handles(operation Operation) bool\<close>\<close>

fun Handles :: "'s chainAdmissionHandler \<Rightarrow> Operation \<Rightarrow> 's world \<Rightarrow> bool \<times> 's world" where
  "Handles [] operation w = (False, w)"
| "Handles (handler # rest) operation w =
     (case call_Handles handler operation w of
        (handles, w1) \<Rightarrow> if handles then (True, w1) else Handles rest operation w1)"

subsection \<open>plugins.go: the registry\<close>

text \<open>
  \<^verbatim>\<open>registry map[string]Factory\<close> is an association list with distinct keys, \<open>None\<close>
  for the \<^verbatim>\<open>nil\<close> map of a fresh \<^verbatim>\<open>Plugins\<close>. The order of the pairs stands for the
  order in which \<^verbatim>\<open>range\<close> visits the map, which Go leaves unspecified.
\<close>

record 's Plugins =
  registry :: "(string \<times> 's Factory) list option"

definition NewPlugins :: "'s Plugins" where
  "NewPlugins = \<lparr>registry = None\<rparr>"

text \<open>\<^verbatim>\<open>f, found := ps.registry[name]\<close>; reading a \<^verbatim>\<open>nil\<close> map finds nothing.\<close>

definition registry_lookup :: "'s Plugins \<Rightarrow> string \<Rightarrow> 's Factory option" where
  "registry_lookup ps name = (case registry ps of None \<Rightarrow> None | Some r \<Rightarrow> map_of r name)"

text \<open>The keys as \<^verbatim>\<open>for k := range ps.registry\<close> visits them.\<close>

definition registry_keys :: "'s Plugins \<Rightarrow> string list" where
  "registry_keys ps = (case registry ps of None \<Rightarrow> [] | Some r \<Rightarrow> map fst r)"

text \<open>
  \<^verbatim>\<open>func (ps *Plugins) Registered() []string\<close>. \<^verbatim>\<open>sort.Strings\<close> sorts by the
  bytewise lexicographic order of Go strings, the order of \<open>string\<close> here.
\<close>

definition Registered :: "'s Plugins \<Rightarrow> string list" where
  "Registered ps = sort (foldl (\<lambda>keys k. keys @ [k]) [] (registry_keys ps))"

text \<open>
  \<^verbatim>\<open>func (ps *Plugins) Register(name string, plugin Factory)\<close>. \<^verbatim>\<open>klog.Fatalf\<close> prints
  and ends the process: the call does not return, and the assignment after it is not
  reached. The line printed at verbosity 1 on success is left out.
\<close>

datatype 'a outcome =
    FatalRegisteredTwice string
  | Returns 'a

definition Register :: "string \<Rightarrow> 's Factory \<Rightarrow> 's Plugins \<Rightarrow> 's Plugins outcome" where
  "Register name plugin ps =
     (case registry ps of
        Some r \<Rightarrow>
          (case map_of r name of
             Some _ \<Rightarrow> FatalRegisteredTwice name
           | None \<Rightarrow> Returns (ps\<lparr>registry := Some (AList.update name plugin r)\<rparr>))
      | None \<Rightarrow> Returns (ps\<lparr>registry := Some (AList.update name plugin [])\<rparr>))"

subsection \<open>plugins.go: splitStream\<close>

text \<open>
  The standard library, as far as \<^verbatim>\<open>splitStream\<close> and its callers use it.
  \<open>unread\<close> is \<^verbatim>\<open>b.buf[b.off:]\<close>. \<open>Buffer_Read p n\<close> is \<^verbatim>\<open>(*bytes.Buffer).Read\<close> on
  the buffer at \<open>p\<close> with a destination of length \<open>n\<close>; it returns the bytes copied.
  \<open>ReadAll\<close> reads a stream to its end and returns a slice (address and length) of a
  new array. \<open>NewBuffer\<close> allocates a buffer on a slice, without copying the array.
\<close>

definition EOF :: error where
  "EOF = Opaque ''EOF''"

definition unread :: "nat \<Rightarrow> 's mem \<Rightarrow> char list" where
  "unread p m =
     (let b = buffers m p in drop (off b) (take (buf_len b) (arrays m (buf_array b))))"

definition Buffer_Read :: "nat \<Rightarrow> nat \<Rightarrow> 's mem \<Rightarrow> (char list \<times> error option) \<times> 's mem" where
  "Buffer_Read p n m =
     (let b = buffers m p in
      if buf_len b \<le> off b
      then (([], if n = 0 then None else Some EOF),
            m\<lparr>buffers := (buffers m)(p := b\<lparr>buf_len := 0, off := 0\<rparr>)\<rparr>)
      else (let out = take n (unread p m)
            in ((out, None), m\<lparr>buffers := (buffers m)(p := b\<lparr>off := off b + length out\<rparr>)\<rparr>)))"

fun read_to_end :: "stream \<Rightarrow> 's mem \<Rightarrow> (char list \<times> error option) \<times> 's mem" where
  "read_to_end (Source bs err) m = ((bs, err), m)"
| "read_to_end (BufferPtr p) m =
     ((unread p m, None),
      m\<lparr>buffers := (buffers m)(p := (buffers m p)\<lparr>buf_len := 0, off := 0\<rparr>)\<rparr>)"

definition ReadAll :: "stream \<Rightarrow> 's mem \<Rightarrow> ((nat \<times> nat) \<times> error option) \<times> 's mem" where
  "ReadAll r m =
     (case read_to_end r m of
        ((bs, err), m1) \<Rightarrow>
          (let a = next_array m1
           in (((a, length bs), err),
               m1\<lparr>arrays := (arrays m1)(a := bs), next_array := Suc a\<rparr>)))"

definition NewBuffer :: "nat \<times> nat \<Rightarrow> 's mem \<Rightarrow> reader \<times> 's mem" where
  "NewBuffer buf m =
     (let p = next_buffer m
      in (Reader (BufferPtr p),
          m\<lparr>buffers := (buffers m)(p := \<lparr>buf_array = fst buf, buf_len = snd buf, off = 0\<rparr>),
            next_buffer := Suc p\<rparr>))"

text \<open>
  \<^verbatim>\<open>func splitStream(config io.Reader) (io.Reader, io.Reader, error)\<close>. The condition
  \<^verbatim>\<open>config == nil || reflect.ValueOf(config).IsNil()\<close> is true on the first two readers
  and false on the third; on the fourth \<^verbatim>\<open>IsNil\<close> panics, before anything is read.
\<close>

definition IsNil_panic :: "Kind \<Rightarrow> string" where
  "IsNil_panic k = ''reflect: call of reflect.Value.IsNil on '' @ kind_name k @ '' Value''"

text \<open>What \<open>splitStream\<close> does once the input is known not to be \<^verbatim>\<open>nil\<close>.\<close>

definition duplicate :: "stream \<Rightarrow> 's mem \<Rightarrow> (reader \<times> reader \<times> error option) \<times> 's mem" where
  "duplicate config m =
     (case ReadAll config m of
        ((configBytes, err), m1) \<Rightarrow>
          if err \<noteq> None then ((NilInterface, NilInterface, err), m1)
          else (case NewBuffer configBytes m1 of
                  (config1, m2) \<Rightarrow>
                    (case NewBuffer configBytes m2 of
                       (config2, m3) \<Rightarrow> ((config1, config2, None), m3))))"

fun splitStream ::
  "reader \<Rightarrow> 's mem \<Rightarrow> ((reader \<times> reader \<times> error option) \<times> 's mem) completion" where
  "splitStream NilInterface m = Return ((NilInterface, NilInterface, None), m)"
| "splitStream NilPointer m = Return ((NilInterface, NilInterface, None), m)"
| "splitStream (Reader config) m = Return (duplicate config m)"
| "splitStream (ValueReader k config) m = Panic (IsNil_panic k)"

subsection \<open>plugins.go: instantiation\<close>

text \<open>
  \<^verbatim>\<open>PluginEnabledFn\<close> is a package variable; the functions that read it take its value
  as the argument \<open>enabledFn\<close>.
\<close>

type_synonym 's PluginEnabledFunc = "string \<Rightarrow> reader \<Rightarrow> 's mem \<Rightarrow> bool \<times> 's mem"

definition PluginEnabledFn_default :: "'s PluginEnabledFunc" where
  "PluginEnabledFn_default name config m = (True, m)"

definition call_PluginEnabledFn ::
  "'s PluginEnabledFunc \<Rightarrow> string \<Rightarrow> reader \<Rightarrow> 's world \<Rightarrow> bool \<times> 's world" where
  "call_PluginEnabledFn enabledFn name config w =
     (case enabledFn name config (mem w) of
        (b, m) \<Rightarrow> (b, \<lparr>mem = m, log = log w @ [CallPluginEnabledFn name config b]\<rparr>))"

definition call_Factory ::
  "'s Factory \<Rightarrow> string \<Rightarrow> reader \<Rightarrow> 's world \<Rightarrow> ('s plugin option \<times> error option) \<times> 's world" where
  "call_Factory f name config w =
     (case f config (mem w) of
        ((ret, err), m) \<Rightarrow>
          ((ret, err), \<lparr>mem = m, log = log w @ [CallFactory name config ret err]\<rparr>))"

text \<open>
  \<^verbatim>\<open>func (ps *Plugins) getPlugin(name string, config io.Reader) (Interface, bool, error)\<close>
\<close>

definition getPlugin ::
  "'s PluginEnabledFunc \<Rightarrow> 's Plugins \<Rightarrow> string \<Rightarrow> reader \<Rightarrow> 's world \<Rightarrow>
     (('s plugin option \<times> bool \<times> error option) \<times> 's world) completion" where
  "getPlugin enabledFn ps name config w =
     (case registry_lookup ps name of
        None \<Rightarrow> Return ((None, False, None), w)
      | Some f \<Rightarrow>
          (case splitStream config (mem w) of
             Panic msg \<Rightarrow> Panic msg
           | Return ((config1, config2, err), m1) \<Rightarrow>
               Return
                 (if err \<noteq> None then ((None, True, err), w\<lparr>mem := m1\<rparr>)
                  else (case call_PluginEnabledFn enabledFn name config1 (w\<lparr>mem := m1\<rparr>) of
                          (enabled, w2) \<Rightarrow>
                            if \<not> enabled then ((None, True, None), w2)
                            else (case call_Factory f name config2 w2 of
                                    ((ret, err), w3) \<Rightarrow> ((ret, True, err), w3))))))"

text \<open>
  \<^verbatim>\<open>func ValidateInitialization(plugin Interface) error\<close>: the type assertion fails on
  a \<^verbatim>\<open>nil\<close> plugin and on a plugin without the method.
\<close>

definition ValidateInitialization :: "'s plugin option \<Rightarrow> 's world \<Rightarrow> error option \<times> 's world" where
  "ValidateInitialization plugin w =
     (case plugin of
        None \<Rightarrow> (None, w)
      | Some p \<Rightarrow>
          (case ValidateInitialization_m p of
             None \<Rightarrow> (None, w)
           | Some validater \<Rightarrow>
               (case validater (mem w) of
                  (err, m) \<Rightarrow>
                    (if err \<noteq> None then err else None,
                     \<lparr>mem = m, log = log w @ [CallValidateInitialization p err]\<rparr>))))"

text \<open>
  \<^verbatim>\<open>pluginInitializer.Initialize(plugin)\<close>, dispatched on the initializer;
  the second equation is \<^verbatim>\<open>func (pp PluginInitializers) Initialize(plugin Interface)\<close>.
\<close>

fun Initialize :: "'s PluginInitializer \<Rightarrow> 's plugin option \<Rightarrow> 's world \<Rightarrow> 's world" where
  "Initialize (Initializer f) plugin w =
     \<lparr>mem = f plugin (mem w), log = log w @ [CallInitialize f plugin]\<rparr>"
| "Initialize (PluginInitializers pp) plugin w = fold (\<lambda>p. Initialize p plugin) pp w"

text \<open>
  \<^verbatim>\<open>func (ps *Plugins) InitPlugin(name string, config io.Reader, pluginInitializer PluginInitializer) (Interface, error)\<close>
\<close>

definition InitPlugin ::
  "'s PluginEnabledFunc \<Rightarrow> 's Plugins \<Rightarrow> string \<Rightarrow> reader \<Rightarrow> 's PluginInitializer \<Rightarrow>
     's world \<Rightarrow> (('s plugin option \<times> error option) \<times> 's world) completion" where
  "InitPlugin enabledFn ps name config pluginInitializer w =
     (if name = [] then Return ((None, None), w\<lparr>log := log w @ [InfoNoPluginSpecified]\<rparr>)
      else (case getPlugin enabledFn ps name config w of
              Panic msg \<Rightarrow> Panic msg
            | Return ((plugin, found, err), w1) \<Rightarrow>
                Return
                  (case err of
                     Some e \<Rightarrow> ((None, Some (CouldntInit name e)), w1)
                   | None \<Rightarrow>
                       if \<not> found then ((None, Some (UnknownPlugin name)), w1)
                       else (case ValidateInitialization plugin
                                    (Initialize pluginInitializer plugin w1) of
                               (Some e, w3) \<Rightarrow> ((None, Some (FailedToInitialize name e)), w3)
                             | (None, w3) \<Rightarrow> ((plugin, None), w3)))))"

subsection \<open>plugins.go: NewFromPlugins\<close>

text \<open>
  \<^verbatim>\<open>ConfigProvider\<close> and \<^verbatim>\<open>Decorator\<close> are interfaces with one method each,
  \<^verbatim>\<open>ConfigFor(pluginName string) (io.Reader, error)\<close> and
  \<^verbatim>\<open>Decorate(handler Interface, name string) Interface\<close>; the decorator may be \<^verbatim>\<open>nil\<close>.
\<close>

type_synonym 's ConfigProvider = "string \<Rightarrow> 's mem \<Rightarrow> (reader \<times> error option) \<times> 's mem"

type_synonym 's Decorator = "'s plugin \<Rightarrow> string \<Rightarrow> 's mem \<Rightarrow> 's plugin \<times> 's mem"

definition call_ConfigFor ::
  "'s ConfigProvider \<Rightarrow> string \<Rightarrow> 's world \<Rightarrow> (reader \<times> error option) \<times> 's world" where
  "call_ConfigFor configProvider pluginName w =
     (case configProvider pluginName (mem w) of
        ((pluginConfig, err), m) \<Rightarrow>
          ((pluginConfig, err),
           \<lparr>mem = m, log = log w @ [CallConfigFor pluginName pluginConfig err]\<rparr>))"

definition call_Decorate ::
  "'s Decorator \<Rightarrow> 's plugin \<Rightarrow> string \<Rightarrow> 's world \<Rightarrow> 's plugin \<times> 's world" where
  "call_Decorate decorate plugin pluginName w =
     (case decorate plugin pluginName (mem w) of
        (h, m) \<Rightarrow> (h, \<lparr>mem = m, log = log w @ [CallDecorate plugin pluginName h]\<rparr>))"

text \<open>
  The three slices the loop of \<^verbatim>\<open>NewFromPlugins\<close> appends to.
\<close>

record 's built =
  handlers :: "'s plugin list"
  mutationPlugins :: "string list"
  validationPlugins :: "string list"

text \<open>The body of the loop for one plugin name: an error leaves the function.\<close>

definition NewFromPlugins_body ::
  "'s PluginEnabledFunc \<Rightarrow> 's Plugins \<Rightarrow> 's ConfigProvider \<Rightarrow> 's PluginInitializer \<Rightarrow>
     's Decorator option \<Rightarrow> string \<Rightarrow> 's built \<Rightarrow> 's world \<Rightarrow>
     ((error + 's built) \<times> 's world) completion" where
  "NewFromPlugins_body enabledFn ps configProvider pluginInitializer decorator pluginName acc w =
     (case call_ConfigFor configProvider pluginName w of
        ((pluginConfig, Some err), w1) \<Rightarrow> Return (Inl err, w1)
      | ((pluginConfig, None), w1) \<Rightarrow>
          (case InitPlugin enabledFn ps pluginName pluginConfig pluginInitializer w1 of
             Panic msg \<Rightarrow> Panic msg
           | Return ((plugin, Some err), w2) \<Rightarrow> Return (Inl err, w2)
           | Return ((None, None), w2) \<Rightarrow> Return (Inr acc, w2)
           | Return ((Some plugin, None), w2) \<Rightarrow>
               (case (case decorator of
                        Some decorate \<Rightarrow> call_Decorate decorate plugin pluginName w2
                      | None \<Rightarrow> (plugin, w2)) of
                  (h, w3) \<Rightarrow>
                    Return
                      (Inr \<lparr>handlers = handlers acc @ [h],
                            mutationPlugins =
                              (if Admit_m plugin \<noteq> None then mutationPlugins acc @ [pluginName]
                               else mutationPlugins acc),
                            validationPlugins =
                              (if Validate_m plugin \<noteq> None
                               then validationPlugins acc @ [pluginName]
                               else validationPlugins acc)\<rparr>, w3))))"

fun NewFromPlugins_loop ::
  "'s PluginEnabledFunc \<Rightarrow> 's Plugins \<Rightarrow> 's ConfigProvider \<Rightarrow> 's PluginInitializer \<Rightarrow>
     's Decorator option \<Rightarrow> string list \<Rightarrow> 's built \<Rightarrow> 's world \<Rightarrow>
     ((error + 's built) \<times> 's world) completion" where
  "NewFromPlugins_loop enabledFn ps configProvider pluginInitializer decorator [] acc w =
     Return (Inr acc, w)"
| "NewFromPlugins_loop enabledFn ps configProvider pluginInitializer decorator
     (pluginName # pluginNames) acc w =
     (case NewFromPlugins_body enabledFn ps configProvider pluginInitializer decorator
             pluginName acc w of
        Panic msg \<Rightarrow> Panic msg
      | Return (Inl err, w1) \<Rightarrow> Return (Inl err, w1)
      | Return (Inr acc1, w1) \<Rightarrow>
          NewFromPlugins_loop enabledFn ps configProvider pluginInitializer decorator
            pluginNames acc1 w1)"

text \<open>The two \<^verbatim>\<open>klog.Infof\<close> lines after the loop, each printed for a non-empty list.\<close>

definition log_loaded :: "'s built \<Rightarrow> 's world \<Rightarrow> 's world" where
  "log_loaded acc w =
     w\<lparr>log := log w
          @ (if length (mutationPlugins acc) \<noteq> 0 then [InfoLoadedMutating (mutationPlugins acc)]
             else [])
          @ (if length (validationPlugins acc) \<noteq> 0
             then [InfoLoadedValidating (validationPlugins acc)] else [])\<rparr>"

text \<open>
  \<^verbatim>\<open>func (ps *Plugins) NewFromPlugins(pluginNames []string, configProvider ConfigProvider, pluginInitializer PluginInitializer, decorator Decorator) (Interface, error)\<close>
\<close>

definition NewFromPlugins ::
  "'s PluginEnabledFunc \<Rightarrow> 's Plugins \<Rightarrow> string list \<Rightarrow> 's ConfigProvider \<Rightarrow>
     's PluginInitializer \<Rightarrow> 's Decorator option \<Rightarrow> 's world \<Rightarrow>
     (('s chainAdmissionHandler option \<times> error option) \<times> 's world) completion" where
  "NewFromPlugins enabledFn ps pluginNames configProvider pluginInitializer decorator w =
     (case NewFromPlugins_loop enabledFn ps configProvider pluginInitializer decorator
             pluginNames \<lparr>handlers = [], mutationPlugins = [], validationPlugins = []\<rparr> w of
        Panic msg \<Rightarrow> Panic msg
      | Return (Inl err, w1) \<Rightarrow> Return ((None, Some err), w1)
      | Return (Inr acc, w1) \<Rightarrow> Return ((Some (handlers acc), None), log_loaded acc w1))"

subsection \<open>Reading the call log\<close>




subsection \<open>Example plugins and requests\<close>

text \<open>
  Plugins that answer \<^verbatim>\<open>Handles\<close> from a fixed set of operations, as a plugin built on
  \<^verbatim>\<open>admission.NewHandler\<close> does, and count their invocations in the program state.
\<close>

definition handles_ops :: "Operation list \<Rightarrow> Operation \<Rightarrow> nat mem \<Rightarrow> bool \<times> nat mem" where
  "handles_ops ops operation m = (operation \<in> set ops, m)"

definition counting ::
  "error option \<Rightarrow> Attributes \<Rightarrow> ObjectInterfaces \<Rightarrow> nat mem \<Rightarrow> error option \<times> nat mem" where
  "counting err a oi m = (err, m\<lparr>user := Suc (user m)\<rparr>)"

definition denied :: error where
  "denied = Opaque ''denied''"

definition mutator_P1 :: "nat plugin" where
  "mutator_P1 = \<lparr>Handles_m = handles_ops [Create], Admit_m = Some (counting None),
     Validate_m = None, ValidateInitialization_m = None\<rparr>"

definition validator_P2 :: "nat plugin" where
  "validator_P2 = \<lparr>Handles_m = handles_ops [Create], Admit_m = None,
     Validate_m = Some (counting None), ValidateInitialization_m = None\<rparr>"


definition rejecting :: "nat plugin" where
  "rejecting = \<lparr>Handles_m = handles_ops [Create, Update], Admit_m = Some (counting (Some denied)),
     Validate_m = Some (counting (Some denied)), ValidateInitialization_m = None\<rparr>"


definition mem0 :: "nat mem" where
  "mem0 = \<lparr>arrays = (\<lambda>a. []), next_array = 0,
     buffers = (\<lambda>p. \<lparr>buf_array = 0, buf_len = 0, off = 0\<rparr>), next_buffer = 0, user = 0\<rparr>"

definition world0 :: "nat world" where
  "world0 = \<lparr>mem = mem0, log = []\<rparr>"

definition factory_of :: "nat plugin \<Rightarrow> nat Factory" where
  "factory_of p config m = ((Some p, None), m)"

definition pizza_plugins :: "nat Plugins" where
  "pizza_plugins = \<lparr>registry = Some [(''PizzaToppings'', factory_of validator_P2),
     (''Defaulter'', factory_of mutator_P1)]\<rparr>"

definition pizza_plugins_reordered :: "nat Plugins" where
  "pizza_plugins_reordered = \<lparr>registry = Some [(''Defaulter'', factory_of mutator_P1),
     (''PizzaToppings'', factory_of validator_P2)]\<rparr>"

text \<open>
  Reading through several buffers in any interleaving: \<open>reads\<close> performs the calls
  \<^verbatim>\<open>Read\<close> of a schedule (the buffer and the length of the destination, call by call) and
  returns what each call copied; \<open>received p\<close> is what the calls on the buffer \<open>p\<close>
  copied, concatenated, and \<open>demand p\<close> the number of bytes they asked for.
\<close>

fun reads :: "(nat \<times> nat) list \<Rightarrow> 's mem \<Rightarrow> char list list \<times> 's mem" where
  "reads [] m = ([], m)"
| "reads ((p, n) # schedule) m =
     (case Buffer_Read p n m of
        ((out, err), m1) \<Rightarrow> (case reads schedule m1 of (outs, m2) \<Rightarrow> (out # outs, m2)))"

fun received :: "nat \<Rightarrow> (nat \<times> nat) list \<Rightarrow> char list list \<Rightarrow> char list" where
  "received p ((q, n) # schedule) (out # outs) =
     (if q = p then out else []) @ received p schedule outs"
| "received p schedule outs = []"

fun demand :: "nat \<Rightarrow> (nat \<times> nat) list \<Rightarrow> nat" where
  "demand p [] = 0"
| "demand p ((q, n) # schedule) = (if q = p then n else 0) + demand p schedule"

definition pizza_config :: "char list" where
  "pizza_config = ''toppings: 3''"

text \<open>The initializers that a \<^verbatim>\<open>PluginInitializer\<close> runs, in the order it runs them.\<close>

fun initializers :: "'s PluginInitializer \<Rightarrow> ('s plugin option \<Rightarrow> 's mem \<Rightarrow> 's mem) list" where
  "initializers (Initializer f) = [f]"
| "initializers (PluginInitializers pp) = concat (map initializers pp)"

text \<open>
  More calls read off a log: initializer calls with the plugin passed, the plugins that
  factories returned with the name asked for, the calls of the decorator (plugin, name,
  wrapper), and the lists printed by the two \<^verbatim>\<open>klog.Infof\<close> lines of \<^verbatim>\<open>NewFromPlugins\<close>.
\<close>

fun initialize_call ::
  "'s event \<Rightarrow> (('s plugin option \<Rightarrow> 's mem \<Rightarrow> 's mem) \<times> 's plugin option) list" where
  "initialize_call (CallInitialize f plugin) = [(f, plugin)]"
| "initialize_call _ = []"

definition initialize_calls ::
  "'s event list \<Rightarrow> (('s plugin option \<Rightarrow> 's mem \<Rightarrow> 's mem) \<times> 's plugin option) list" where
  "initialize_calls evs = concat (map initialize_call evs)"

fun factory_plugin :: "'s event \<Rightarrow> (string \<times> 's plugin) list" where
  "factory_plugin (CallFactory name config (Some p) err) = [(name, p)]"
| "factory_plugin _ = []"

definition factory_plugins :: "'s event list \<Rightarrow> (string \<times> 's plugin) list" where
  "factory_plugins evs = concat (map factory_plugin evs)"

fun decorate_call :: "'s event \<Rightarrow> ('s plugin \<times> string \<times> 's plugin) list" where
  "decorate_call (CallDecorate p name h) = [(p, name, h)]"
| "decorate_call _ = []"

definition decorate_calls :: "'s event list \<Rightarrow> ('s plugin \<times> string \<times> 's plugin) list" where
  "decorate_calls evs = concat (map decorate_call evs)"

fun loaded_line :: "'s event \<Rightarrow> (bool \<times> string list) list" where
  "loaded_line (InfoLoadedMutating names) = [(True, names)]"
| "loaded_line (InfoLoadedValidating names) = [(False, names)]"
| "loaded_line _ = []"

definition loaded_lines :: "'s event list \<Rightarrow> (bool \<times> string list) list" where
  "loaded_lines evs = concat (map loaded_line evs)"

text \<open>
  An initializer that hands a shared informer factory (the number 7) to a plugin, a
  plugin that validates its initialization by looking for it, an enablement predicate
  that disables every plugin, a factory that fails, a configuration provider without
  configuration, and a decorator whose wrapper has both \<^verbatim>\<open>Admit\<close> and \<^verbatim>\<open>Validate\<close>
  whatever the plugin has.
\<close>

definition inject_informer :: "nat plugin option \<Rightarrow> nat mem \<Rightarrow> nat mem" where
  "inject_informer plugin m = m\<lparr>user := 7\<rparr>"

definition missing_informer :: error where
  "missing_informer = Opaque ''missing informer factory''"

definition wants_informer :: "nat plugin" where
  "wants_informer = \<lparr>Handles_m = handles_ops [Create, Update], Admit_m = None,
     Validate_m = Some (counting None),
     ValidateInitialization_m =
       Some (\<lambda>m. (if user m = 7 then None else Some missing_informer, m))\<rparr>"

definition never_enabled :: "nat PluginEnabledFunc" where
  "never_enabled name config m = (False, m)"

definition bad_config :: error where
  "bad_config = Opaque ''bad config''"

definition failing_factory :: "nat Factory" where
  "failing_factory config m = ((None, Some bad_config), m)"

definition restaurant_plugins :: "nat Plugins" where
  "restaurant_plugins = \<lparr>registry = Some [(''PizzaToppings'', factory_of wants_informer),
     (''Defaulter'', factory_of mutator_P1), (''Broken'', failing_factory)]\<rparr>"

definition no_config :: "nat ConfigProvider" where
  "no_config pluginName m = ((NilInterface, None), m)"

definition struct_config :: "nat ConfigProvider" where
  "struct_config pluginName m = ((ValueReader StructKind (Source pizza_config None), None), m)"

definition pass_through ::
  "Attributes \<Rightarrow> ObjectInterfaces \<Rightarrow> nat mem \<Rightarrow> error option \<times> nat mem" where
  "pass_through a oi m = (None, m)"

definition metrics_wrapper :: "nat plugin \<Rightarrow> nat plugin" where
  "metrics_wrapper p =
     \<lparr>Handles_m = Handles_m p,
      Admit_m = Some (case Admit_m p of Some admit \<Rightarrow> admit | None \<Rightarrow> pass_through),
      Validate_m = Some (case Validate_m p of Some validate \<Rightarrow> validate | None \<Rightarrow> pass_through),
      ValidateInitialization_m = None\<rparr>"

definition with_metrics :: "nat Decorator" where
  "with_metrics p name m = (metrics_wrapper p, m)"

text \<open>
  What a stretch \<open>evs\<close> of the log of \<^verbatim>\<open>NewFromPlugins\<close> says about the three slices
  before and after it: the handlers appended are the plugins the factories returned, or
  their wrappers when there is a decorator, which is called on exactly those plugins; the
  names appended to the two tallies are those of the returned plugins that have
  \<^verbatim>\<open>Admit\<close>, and \<^verbatim>\<open>Validate\<close>.
\<close>

definition built_from :: "'s Decorator option \<Rightarrow> 's built \<Rightarrow> 's event list \<Rightarrow> 's built \<Rightarrow> bool" where
  "built_from dec acc evs acc' \<longleftrightarrow>
     loaded_lines evs = [] \<and>
     handlers acc' = handlers acc @
       (case dec of None \<Rightarrow> map snd (factory_plugins evs)
        | Some d \<Rightarrow> map (\<lambda>c. snd (snd c)) (decorate_calls evs)) \<and>
     (case dec of None \<Rightarrow> decorate_calls evs = []
      | Some d \<Rightarrow> map (\<lambda>c. (fst (snd c), fst c)) (decorate_calls evs) = factory_plugins evs) \<and>
     mutationPlugins acc' = mutationPlugins acc @
       map fst (filter (\<lambda>c. Admit_m (snd c) \<noteq> None) (factory_plugins evs)) \<and>
     validationPlugins acc' = validationPlugins acc @
       map fst (filter (\<lambda>c. Validate_m (snd c) \<noteq> None) (factory_plugins evs))"

section \<open>The chain executor\<close>











section \<open>The registry\<close>

lemma foldl_append_keys: "foldl (\<lambda>keys k. keys @ [k]) acc xs = acc @ xs"
  by (induction xs arbitrary: acc) simp_all

lemma Registered_keys: "Registered ps = sort (registry_keys ps)"
  by (simp add: Registered_def foldl_append_keys)

lemma registry_lookup_keys:
  "{name. registry_lookup ps name \<noteq> None} = set (registry_keys ps)"
proof (cases "registry ps")
  case None
  then show ?thesis by (simp add: registry_lookup_def registry_keys_def)
next
  case (Some r)
  have "{name. map_of r name \<noteq> None} = fst ` set r"
    unfolding dom_map_of_conv_image_fst [symmetric] dom_def by (rule refl)
  with Some show ?thesis by (simp add: registry_lookup_def registry_keys_def)
qed

lemma Registered_set_sort:
  "distinct (registry_keys ps) \<Longrightarrow> Registered ps = sorted_list_of_set (set (registry_keys ps))"
  by (simp add: Registered_keys sorted_list_of_set_sort_remdups distinct_remdups_id)

text \<open>
  C9. For every registry whose keys are distinct, as the keys of a map are, in whatever
  order \<^verbatim>\<open>range\<close> visits them: \<open>Registered\<close> returns a sorted list without duplicates
  whose elements are exactly the registered names, and two registries with the same names
  return the same list, whatever the order of their entries.
\<close>

theorem Registered_sorted_no_duplicates:
  "distinct (registry_keys ps) \<Longrightarrow>
   sorted (Registered ps) \<and> distinct (Registered ps) \<and>
   set (Registered ps) = {name. registry_lookup ps name \<noteq> None} \<and>
   (\<forall>ps' :: 's Plugins.
      distinct (registry_keys ps') \<and> set (registry_keys ps') = set (registry_keys ps) \<longrightarrow>
      Registered ps' = Registered ps)"
proof -
  assume d: "distinct (registry_keys ps)"
  have "sorted (Registered ps)" "distinct (Registered ps)"
    using d by (simp_all add: Registered_keys)
  moreover have "set (Registered ps) = {name. registry_lookup ps name \<noteq> None}"
    unfolding registry_lookup_keys by (simp add: Registered_keys)
  moreover have "Registered ps' = Registered ps"
    if "distinct (registry_keys ps') \<and> set (registry_keys ps') = set (registry_keys ps)"
    for ps' :: "'s Plugins"
    using that d by (simp add: Registered_set_sort)
  ultimately show ?thesis by blast
qed

lemma Register_lookup:
  "Register name plugin ps =
     (if registry_lookup ps name \<noteq> None then FatalRegisteredTwice name
      else Returns (ps\<lparr>registry := Some (AList.update name plugin
             (case registry ps of None \<Rightarrow> [] | Some r \<Rightarrow> r))\<rparr>))"
  by (auto simp: Register_def registry_lookup_def split: option.splits)

lemma lookup_after_Register:
  "Register name plugin ps = Returns ps' \<Longrightarrow>
   registry_lookup ps' n = (if n = name then Some plugin else registry_lookup ps n)"
proof (cases "registry ps")
  case None
  assume "Register name plugin ps = Returns ps'"
  with None have "registry ps' = Some [(name, plugin)]"
    by (auto simp: Register_def)
  with None show ?thesis by (simp add: registry_lookup_def)
next
  case (Some r)
  assume "Register name plugin ps = Returns ps'"
  with Some have "registry ps' = Some (AList.update name plugin r)"
    by (auto simp: Register_def split: option.splits)
  with Some show ?thesis by (simp add: registry_lookup_def update_conv')
qed

lemma Register_keeps_distinct:
  "Register name plugin ps = Returns ps' \<Longrightarrow> distinct (registry_keys ps) \<Longrightarrow>
   distinct (registry_keys ps')"
  by (auto simp: Register_def registry_keys_def distinct_update split: option.splits)

text \<open>
  C8. \<open>Register\<close> with a name that is present ends in the fatal exit and yields no new
  registry. With a name that is not present it returns, the name is then bound to the new
  factory and every other name is bound as before; this holds on the fresh registry of
  \<open>NewPlugins\<close> too. Two distinct names that are both absent are registered one after
  the other without conflict.
\<close>

theorem Register_twice_fatal:
  "(registry_lookup ps name \<noteq> None \<longrightarrow> Register name plugin ps = FatalRegisteredTwice name) \<and>
   (registry_lookup ps name = None \<longrightarrow>
      (\<exists>ps'. Register name plugin ps = Returns ps' \<and>
         registry_lookup ps' name = Some plugin \<and>
         (\<forall>n. n \<noteq> name \<longrightarrow> registry_lookup ps' n = registry_lookup ps n))) \<and>
   (\<exists>ps'. Register name plugin NewPlugins = Returns ps') \<and>
   (name \<noteq> name2 \<and> registry_lookup ps name = None \<and> registry_lookup ps name2 = None \<longrightarrow>
      (\<exists>ps1 ps2. Register name plugin ps = Returns ps1 \<and>
         Register name2 plugin2 ps1 = Returns ps2 \<and>
         registry_lookup ps2 name = Some plugin \<and> registry_lookup ps2 name2 = Some plugin2))"
proof (intro conjI impI)
  assume "registry_lookup ps name \<noteq> None"
  then show "Register name plugin ps = FatalRegisteredTwice name"
    by (simp add: Register_lookup)
next
  assume "registry_lookup ps name = None"
  then obtain ps' where r: "Register name plugin ps = Returns ps'"
    by (simp add: Register_lookup)
  have "registry_lookup ps' name = Some plugin"
    by (simp add: lookup_after_Register [OF r])
  moreover have "\<forall>n. n \<noteq> name \<longrightarrow> registry_lookup ps' n = registry_lookup ps n"
    by (simp add: lookup_after_Register [OF r])
  ultimately show "\<exists>ps'. Register name plugin ps = Returns ps' \<and>
         registry_lookup ps' name = Some plugin \<and>
         (\<forall>n. n \<noteq> name \<longrightarrow> registry_lookup ps' n = registry_lookup ps n)"
    using r by blast
next
  show "\<exists>ps'. Register name plugin NewPlugins = Returns ps'"
    by (simp add: Register_def NewPlugins_def)
next
  assume "name \<noteq> name2 \<and> registry_lookup ps name = None \<and> registry_lookup ps name2 = None"
  then have ne: "name2 \<noteq> name" and n1: "registry_lookup ps name = None"
    and n2: "registry_lookup ps name2 = None" by auto
  from n1 obtain ps1 where r1: "Register name plugin ps = Returns ps1"
    by (simp add: Register_lookup)
  have "registry_lookup ps1 name2 = None"
    using ne n2 by (simp add: lookup_after_Register [OF r1])
  then obtain ps2 where r2: "Register name2 plugin2 ps1 = Returns ps2"
    by (simp add: Register_lookup)
  have "registry_lookup ps2 name2 = Some plugin2"
    by (simp add: lookup_after_Register [OF r2])
  moreover have "registry_lookup ps2 name = Some plugin"
    using ne by (simp add: lookup_after_Register [OF r2] lookup_after_Register [OF r1])
  ultimately show "\<exists>ps1 ps2. Register name plugin ps = Returns ps1 \<and>
         Register name2 plugin2 ps1 = Returns ps2 \<and>
         registry_lookup ps2 name = Some plugin \<and> registry_lookup ps2 name2 = Some plugin2"
    using r1 r2 by blast
qed

lemma pizza_plugins_keys: "registry_keys pizza_plugins = [''PizzaToppings'', ''Defaulter'']"
  by (simp add: pizza_plugins_def registry_keys_def)

lemma pizza_plugins_reordered_keys: "registry_keys pizza_plugins_reordered = [''Defaulter'', ''PizzaToppings'']"
  by (simp add: pizza_plugins_reordered_def registry_keys_def)

lemma Registered_pizza_plugins: "Registered pizza_plugins = [''Defaulter'', ''PizzaToppings'']"
  by (simp add: Registered_def pizza_plugins_keys)

theorem Registered_sorted_no_duplicates_witness:
  "distinct (registry_keys pizza_plugins) \<and>
   Registered pizza_plugins = [''Defaulter'', ''PizzaToppings''] \<and>
   sorted (Registered pizza_plugins) \<and> distinct (Registered pizza_plugins) \<and>
   set (Registered pizza_plugins) = {name. registry_lookup pizza_plugins name \<noteq> None} \<and>
   Registered pizza_plugins_reordered = Registered pizza_plugins"
proof -
  have d: "distinct (registry_keys pizza_plugins)" by (simp add: pizza_plugins_keys)
  have d': "distinct (registry_keys pizza_plugins_reordered) \<and>
    set (registry_keys pizza_plugins_reordered) = set (registry_keys pizza_plugins)"
    by (simp add: pizza_plugins_keys pizza_plugins_reordered_keys insert_commute)
  from Registered_sorted_no_duplicates [OF d] d' d Registered_pizza_plugins show ?thesis by blast
qed

theorem Register_twice_fatal_witness:
  "registry_lookup pizza_plugins ''Defaulter'' \<noteq> None \<and>
   Register ''Defaulter'' (factory_of rejecting) pizza_plugins = FatalRegisteredTwice ''Defaulter'' \<and>
   registry_lookup (NewPlugins :: nat Plugins) ''Defaulter'' = None \<and>
   ''Defaulter'' \<noteq> ''PizzaToppings'' \<and>
   registry_lookup (NewPlugins :: nat Plugins) ''PizzaToppings'' = None \<and>
   (\<exists>ps1 ps2. Register ''Defaulter'' (factory_of mutator_P1) NewPlugins = Returns ps1 \<and>
      Register ''PizzaToppings'' (factory_of validator_P2) ps1 = Returns ps2 \<and>
      registry_lookup ps2 ''Defaulter'' = Some (factory_of mutator_P1) \<and>
      registry_lookup ps2 ''PizzaToppings'' = Some (factory_of validator_P2))"
proof -
  have a: "registry_lookup pizza_plugins ''Defaulter'' \<noteq> None"
    by (simp add: pizza_plugins_def registry_lookup_def)
  have b: "registry_lookup (NewPlugins :: nat Plugins) ''Defaulter'' = None"
    "registry_lookup (NewPlugins :: nat Plugins) ''PizzaToppings'' = None"
    by (simp_all add: NewPlugins_def registry_lookup_def)
  have c: "''Defaulter'' \<noteq> ''PizzaToppings''" by simp
  from Register_twice_fatal [of pizza_plugins "''Defaulter''" "factory_of rejecting"] a
  have "Register ''Defaulter'' (factory_of rejecting) pizza_plugins = FatalRegisteredTwice ''Defaulter''"
    by blast
  moreover from Register_twice_fatal [of NewPlugins "''Defaulter''" "factory_of mutator_P1"
      "''PizzaToppings''" "factory_of validator_P2"] b c
  have "\<exists>ps1 ps2. Register ''Defaulter'' (factory_of mutator_P1) NewPlugins = Returns ps1 \<and>
      Register ''PizzaToppings'' (factory_of validator_P2) ps1 = Returns ps2 \<and>
      registry_lookup ps2 ''Defaulter'' = Some (factory_of mutator_P1) \<and>
      registry_lookup ps2 ''PizzaToppings'' = Some (factory_of validator_P2)"
    by blast
  ultimately show ?thesis using a b c by blast
qed

section \<open>The configuration splitter\<close>

lemma Buffer_Read_out: "fst (fst (Buffer_Read p n m)) = take n (unread p m)"
  by (simp add: Buffer_Read_def unread_def Let_def)

lemma Buffer_Read_unread:
  "unread q (snd (Buffer_Read p n m)) = (if q = p then drop n (unread p m) else unread q m)"
  by (simp add: Buffer_Read_def unread_def Let_def min_def add.commute)

lemma reads_received:
  "received p schedule (fst (reads schedule m)) = take (demand p schedule) (unread p m)"
proof (induction schedule arbitrary: m)
  case Nil
  then show ?case by simp
next
  case (Cons a schedule)
  obtain q n where a: "a = (q, n)" by (cases a)
  obtain out err m1 where r: "Buffer_Read q n m = ((out, err), m1)"
    by (metis prod.collapse)
  have out: "out = take n (unread q m)"
    using Buffer_Read_out [of q n m] r by simp
  have un: "unread p m1 = (if p = q then drop n (unread q m) else unread p m)"
    using Buffer_Read_unread [of p q n m] r by simp
  obtain outs m2 where rs: "reads schedule m1 = (outs, m2)"
    by (cases "reads schedule m1")
  have "received p schedule outs = take (demand p schedule) (unread p m1)"
    using Cons.IH [of m1] rs by simp
  then show ?case
    using a r rs out un by (simp add: take_add)
qed

lemma splitStream_failed:
  "read_to_end config m = ((bs, Some e), m1) \<Longrightarrow>
   \<exists>m'. splitStream (Reader config) m = Return ((NilInterface, NilInterface, Some e), m')"
  by (simp add: duplicate_def ReadAll_def Let_def)

lemma splitStream_copies:
  assumes "read_to_end config m = ((bs, None), m1)"
  shows "\<exists>p1 p2 m'. splitStream (Reader config) m =
            Return ((Reader (BufferPtr p1), Reader (BufferPtr p2), None), m') \<and>
          p1 \<noteq> p2 \<and> unread p1 m' = bs \<and> unread p2 m' = bs"
  using assms
  by (simp add: duplicate_def ReadAll_def NewBuffer_def Let_def unread_def)

text \<open>
  The behaviour of \<open>splitStream\<close> on the readers on which it returns. On the \<^verbatim>\<open>nil\<close>
  interface, and on a typed \<^verbatim>\<open>nil\<close> pointer, it returns three \<^verbatim>\<open>nil\<close>s and leaves the
  memory as it is. On a non-nil reader of a kind that can be \<^verbatim>\<open>nil\<close>: when reading the
  input fails, it returns the error and no reader; when the input is read to its end
  without error and delivers the bytes \<open>bs\<close>, it returns no error and two readers that
  are distinct buffers, each with \<open>bs\<close> unread; and in every interleaving of reads on the
  two, what is read from each is the prefix of \<open>bs\<close> of the length asked from it: reading
  one takes nothing from the other, in either order.
\<close>

theorem splitStream_duplicates:
  "splitStream NilInterface m = Return ((NilInterface, NilInterface, None), m) \<and>
   splitStream NilPointer m = Return ((NilInterface, NilInterface, None), m) \<and>
   (read_to_end config m = ((bs, Some e), m1) \<longrightarrow>
      (\<exists>m'. splitStream (Reader config) m =
         Return ((NilInterface, NilInterface, Some e), m'))) \<and>
   (read_to_end config m = ((bs, None), m1) \<longrightarrow>
      (\<exists>p1 p2 m'.
         splitStream (Reader config) m =
           Return ((Reader (BufferPtr p1), Reader (BufferPtr p2), None), m') \<and>
         p1 \<noteq> p2 \<and> unread p1 m' = bs \<and> unread p2 m' = bs \<and>
         (\<forall>schedule.
            received p1 schedule (fst (reads schedule m')) = take (demand p1 schedule) bs \<and>
            received p2 schedule (fst (reads schedule m')) = take (demand p2 schedule) bs)))"
proof (intro conjI impI)
  assume "read_to_end config m = ((bs, Some e), m1)"
  then show "\<exists>m'. splitStream (Reader config) m =
         Return ((NilInterface, NilInterface, Some e), m')"
    by (rule splitStream_failed)
next
  assume "read_to_end config m = ((bs, None), m1)"
  from splitStream_copies [OF this] obtain p1 p2 m' where
    s: "splitStream (Reader config) m =
           Return ((Reader (BufferPtr p1), Reader (BufferPtr p2), None), m')"
    and ne: "p1 \<noteq> p2" and u1: "unread p1 m' = bs" and u2: "unread p2 m' = bs"
    by blast
  have "\<forall>schedule.
      received p1 schedule (fst (reads schedule m')) = take (demand p1 schedule) bs \<and>
      received p2 schedule (fst (reads schedule m')) = take (demand p2 schedule) bs"
    using reads_received [of p1 _ m'] reads_received [of p2 _ m'] u1 u2 by simp
  with s ne u1 u2 show "\<exists>p1 p2 m'.
         splitStream (Reader config) m =
           Return ((Reader (BufferPtr p1), Reader (BufferPtr p2), None), m') \<and>
         p1 \<noteq> p2 \<and> unread p1 m' = bs \<and> unread p2 m' = bs \<and>
         (\<forall>schedule.
            received p1 schedule (fst (reads schedule m')) = take (demand p1 schedule) bs \<and>
            received p2 schedule (fst (reads schedule m')) = take (demand p2 schedule) bs)"
    by blast
qed simp_all

lemma splitStream_example:
  "\<exists>m'. splitStream (Reader (Source pizza_config None)) mem0 =
     Return ((Reader (BufferPtr 0), Reader (BufferPtr (Suc 0)), None), m')"
  by (simp add: duplicate_def ReadAll_def NewBuffer_def Let_def mem0_def)

lemma reads_example:
  "fst (reads [(Suc 0, 4), (0, 100), (Suc 0, 100), (0, 5)]
     (snd (duplicate (Source pizza_config None) mem0))) =
   [''topp'', ''toppings: 3'', ''ings: 3'', []]"
  by (simp add: duplicate_def ReadAll_def NewBuffer_def Buffer_Read_def unread_def Let_def
      mem0_def pizza_config_def)

theorem splitStream_duplicates_example:
  "read_to_end (Source pizza_config None) mem0 = ((pizza_config, None), mem0) \<and>
   read_to_end (Source ''top'' (Some (Opaque ''unexpected EOF''))) mem0 =
     ((''top'', Some (Opaque ''unexpected EOF'')), mem0) \<and>
   (\<exists>m'. splitStream (Reader (Source ''top'' (Some (Opaque ''unexpected EOF'')))) mem0 =
     Return ((NilInterface, NilInterface, Some (Opaque ''unexpected EOF'')), m')) \<and>
   (\<exists>p1 p2 m'.
      splitStream (Reader (Source pizza_config None)) mem0 =
        Return ((Reader (BufferPtr p1), Reader (BufferPtr p2), None), m') \<and>
      p1 \<noteq> p2 \<and> unread p1 m' = pizza_config \<and> unread p2 m' = pizza_config \<and>
      received p1 [(p2, 4), (p1, 100), (p2, 100), (p1, 5)]
        (fst (reads [(p2, 4), (p1, 100), (p2, 100), (p1, 5)] m')) = pizza_config \<and>
      received p2 [(p2, 4), (p1, 100), (p2, 100), (p1, 5)]
        (fst (reads [(p2, 4), (p1, 100), (p2, 100), (p1, 5)] m')) = pizza_config \<and>
      fst (reads [(p2, 4), (p1, 100), (p2, 100), (p1, 5)] m') =
        [''topp'', ''toppings: 3'', ''ings: 3'', []])"
proof -
  have a: "read_to_end (Source pizza_config None) mem0 = ((pizza_config, None), mem0)"
    by simp
  have b: "read_to_end (Source ''top'' (Some (Opaque ''unexpected EOF''))) mem0 =
     ((''top'', Some (Opaque ''unexpected EOF'')), mem0)"
    by simp
  from splitStream_duplicates [of mem0 "Source ''top'' (Some (Opaque ''unexpected EOF''))"
      "''top''" "Opaque ''unexpected EOF''" mem0] b
  have c: "\<exists>m'. splitStream (Reader (Source ''top'' (Some (Opaque ''unexpected EOF'')))) mem0 =
     Return ((NilInterface, NilInterface, Some (Opaque ''unexpected EOF'')), m')"
    by blast
  from splitStream_duplicates [of mem0 "Source pizza_config None" pizza_config _ mem0] a
  obtain p1 p2 m' where s: "splitStream (Reader (Source pizza_config None)) mem0 =
        Return ((Reader (BufferPtr p1), Reader (BufferPtr p2), None), m')"
    and r: "p1 \<noteq> p2" "unread p1 m' = pizza_config" "unread p2 m' = pizza_config"
    and all: "\<And>schedule.
      received p1 schedule (fst (reads schedule m')) = take (demand p1 schedule) pizza_config \<and>
      received p2 schedule (fst (reads schedule m')) = take (demand p2 schedule) pizza_config"
    by blast
  from s splitStream_example have p: "p1 = 0" "p2 = Suc 0" by auto
  from s have m': "m' = snd (duplicate (Source pizza_config None) mem0)" by simp
  have out: "fst (reads [(p2, 4), (p1, 100), (p2, 100), (p1, 5)] m') =
        [''topp'', ''toppings: 3'', ''ings: 3'', []]"
    unfolding p m' by (rule reads_example)
  have rec: "received p1 [(p2, 4), (p1, 100), (p2, 100), (p1, 5)]
        (fst (reads [(p2, 4), (p1, 100), (p2, 100), (p1, 5)] m')) = pizza_config"
    "received p2 [(p2, 4), (p1, 100), (p2, 100), (p1, 5)]
        (fst (reads [(p2, 4), (p1, 100), (p2, 100), (p1, 5)] m')) = pizza_config"
    using all [of "[(p2, 4), (p1, 100), (p2, 100), (p1, 5)]"] r(1)
    by (simp_all add: pizza_config_def)
  from a b c s r out rec show ?thesis by blast
qed

text \<open>
  C6, at an input on which the code departs from it. A reader that is a struct value and
  delivers the eleven bytes of \<open>pizza_config\<close> without error is not duplicated:
  \<^verbatim>\<open>reflect.ValueOf(config).IsNil()\<close> panics, so \<open>splitStream\<close> returns neither readers
  nor an error, and the panic leaves \<open>InitPlugin\<close> as well. So does \<^verbatim>\<open>http.NoBody\<close>, the
  struct reader that delivers no byte.
\<close>

theorem splitStream_panics_on_struct_reader:
  "read_to_end (Source pizza_config None) mem0 = ((pizza_config, None), mem0) \<and>
   length pizza_config = 11 \<and>
   splitStream (ValueReader StructKind (Source pizza_config None)) mem0 =
     Panic ''reflect: call of reflect.Value.IsNil on struct Value'' \<and>
   splitStream (ValueReader StructKind (Source [] None)) mem0 =
     Panic ''reflect: call of reflect.Value.IsNil on struct Value'' \<and>
   InitPlugin PluginEnabledFn_default restaurant_plugins ''Defaulter''
     (ValueReader StructKind (Source pizza_config None)) (PluginInitializers []) world0 =
     Panic ''reflect: call of reflect.Value.IsNil on struct Value''"
  by (simp add: pizza_config_def InitPlugin_def getPlugin_def restaurant_plugins_def
      registry_lookup_def IsNil_panic_def)

section \<open>Plugin instantiation\<close>

lemma fold_Initialize:
  "(\<And>p w. p \<in> set pp \<Longrightarrow>
      Initialize p plugin w =
        \<lparr>mem = fold (\<lambda>f. f plugin) (initializers p) (mem w),
         log = log w @ map (\<lambda>f. CallInitialize f plugin) (initializers p)\<rparr>) \<Longrightarrow>
   fold (\<lambda>p. Initialize p plugin) pp w =
     \<lparr>mem = fold (\<lambda>f. f plugin) (concat (map initializers pp)) (mem w),
      log = log w @ map (\<lambda>f. CallInitialize f plugin) (concat (map initializers pp))\<rparr>"
  by (induction pp arbitrary: w) simp_all

lemma Initialize_runs:
  "Initialize ini plugin w =
     \<lparr>mem = fold (\<lambda>f. f plugin) (initializers ini) (mem w),
      log = log w @ map (\<lambda>f. CallInitialize f plugin) (initializers ini)\<rparr>"
proof (induction ini plugin w rule: Initialize.induct)
  case (1 f plugin w)
  then show ?case by simp
next
  case (2 pp plugin w)
  then show ?case by (simp add: fold_Initialize)
qed

lemma initialize_calls_append [simp]:
  "initialize_calls (xs @ ys) = initialize_calls xs @ initialize_calls ys"
  by (simp add: initialize_calls_def)

lemma initialize_calls_Nil [simp]: "initialize_calls [] = []"
  by (simp add: initialize_calls_def)

lemma initialize_calls_Cons [simp]:
  "initialize_calls (ev # evs) = initialize_call ev @ initialize_calls evs"
  by (simp add: initialize_calls_def)

lemma initialize_calls_map [simp]:
  "initialize_calls (map (\<lambda>f. CallInitialize f plugin) fs) = map (\<lambda>f. (f, plugin)) fs"
  by (induction fs) simp_all

text \<open>What \<open>getPlugin\<close> does, case by case.\<close>

lemma getPlugin_unknown:
  "registry_lookup ps name = None \<Longrightarrow>
   getPlugin enabledFn ps name config w = Return ((None, False, None), w)"
  by (simp add: getPlugin_def)

lemma getPlugin_panics:
  "registry_lookup ps name = Some f \<Longrightarrow>
   splitStream config (mem w) = Panic msg \<Longrightarrow>
   getPlugin enabledFn ps name config w = Panic msg"
  by (simp add: getPlugin_def)

lemma getPlugin_read_error:
  "registry_lookup ps name = Some f \<Longrightarrow>
   splitStream config (mem w) = Return ((config1, config2, Some e), m1) \<Longrightarrow>
   getPlugin enabledFn ps name config w = Return ((None, True, Some e), w\<lparr>mem := m1\<rparr>)"
  by (simp add: getPlugin_def)

lemma getPlugin_disabled:
  "registry_lookup ps name = Some f \<Longrightarrow>
   splitStream config (mem w) = Return ((config1, config2, None), m1) \<Longrightarrow>
   enabledFn name config1 m1 = (False, m2) \<Longrightarrow>
   getPlugin enabledFn ps name config w =
     Return ((None, True, None),
       \<lparr>mem = m2, log = log w @ [CallPluginEnabledFn name config1 False]\<rparr>)"
  by (simp add: getPlugin_def call_PluginEnabledFn_def)

lemma getPlugin_enabled:
  "registry_lookup ps name = Some f \<Longrightarrow>
   splitStream config (mem w) = Return ((config1, config2, None), m1) \<Longrightarrow>
   enabledFn name config1 m1 = (True, m2) \<Longrightarrow>
   f config2 m2 = ((ret, err), m3) \<Longrightarrow>
   getPlugin enabledFn ps name config w =
     Return ((ret, True, err),
       \<lparr>mem = m3,
        log = log w @ [CallPluginEnabledFn name config1 True,
          CallFactory name config2 ret err]\<rparr>)"
  by (simp add: getPlugin_def call_PluginEnabledFn_def call_Factory_def)

lemma getPlugin_log:
  "getPlugin enabledFn ps name config w = Return ((plugin, found, err), w1) \<Longrightarrow>
   \<exists>evs. log w1 = log w @ evs \<and> initialize_calls evs = [] \<and>
     (found \<longleftrightarrow> registry_lookup ps name \<noteq> None)"
  by (auto simp: getPlugin_def call_PluginEnabledFn_def call_Factory_def
      split: option.splits prod.splits if_splits completion.splits)

lemma ValidateInitialization_log:
  "ValidateInitialization plugin w = (err, w1) \<Longrightarrow>
   \<exists>evs. log w1 = log w @ evs \<and> initialize_calls evs = []"
  by (auto simp: ValidateInitialization_def split: option.splits prod.splits if_splits)

lemma InitPlugin_panics:
  "name \<noteq> [] \<Longrightarrow> getPlugin enabledFn ps name config w = Panic msg \<Longrightarrow>
   InitPlugin enabledFn ps name config ini w = Panic msg"
  by (simp add: InitPlugin_def)

lemma InitPlugin_after_getPlugin:
  "name \<noteq> [] \<Longrightarrow>
   getPlugin enabledFn ps name config w = Return ((plugin, True, None), w1) \<Longrightarrow>
   InitPlugin enabledFn ps name config ini w =
     Return (case ValidateInitialization plugin (Initialize ini plugin w1) of
        (Some e, w3) \<Rightarrow> ((None, Some (FailedToInitialize name e)), w3)
      | (None, w3) \<Rightarrow> ((plugin, None), w3))"
  by (simp add: InitPlugin_def)

text \<open>
  C2. The results of \<open>InitPlugin\<close>, in the order the function decides them. An empty
  name returns no plugin and no error. A non-empty name that is not in the registry returns
  the error \<^verbatim>\<open>unknown admission plugin: name\<close>, no plugin, and leaves the world as it is.
  A registered name for which the enablement predicate, called on the first copy of the
  configuration, returns false returns no plugin and no error. A registered, enabled name
  whose factory returns an error \<open>e\<close> returns no plugin and the error
  \<^verbatim>\<open>couldn't init admission plugin "name": e\<close>.
\<close>

theorem InitPlugin_results:
  "(name = [] \<longrightarrow>
      (\<exists>w'. InitPlugin enabledFn ps name config ini w = Return ((None, None), w'))) \<and>
   (name \<noteq> [] \<and> registry_lookup ps name = None \<longrightarrow>
      InitPlugin enabledFn ps name config ini w =
        Return ((None, Some (UnknownPlugin name)), w) \<and>
      (\<forall>q. error_text q (UnknownPlugin name) = ''unknown admission plugin: '' @ name)) \<and>
   (name \<noteq> [] \<and> registry_lookup ps name = Some f \<and>
    splitStream config (mem w) = Return ((config1, config2, None), m1) \<and>
    enabledFn name config1 m1 = (False, m2) \<longrightarrow>
      (\<exists>w'. InitPlugin enabledFn ps name config ini w = Return ((None, None), w'))) \<and>
   (name \<noteq> [] \<and> registry_lookup ps name = Some f \<and>
    splitStream config (mem w) = Return ((config1, config2, None), m1) \<and>
    enabledFn name config1 m1 = (True, m2) \<and> f config2 m2 = ((ret, Some e), m3) \<longrightarrow>
      (\<exists>w'. InitPlugin enabledFn ps name config ini w =
         Return ((None, Some (CouldntInit name e)), w')) \<and>
      (\<forall>q. error_text q (CouldntInit name e) =
         ''couldn't init admission plugin '' @ q name @ '': '' @ error_text q e))"
proof (intro conjI impI)
  assume "name = []"
  then show "\<exists>w'. InitPlugin enabledFn ps name config ini w = Return ((None, None), w')"
    by (simp add: InitPlugin_def)
next
  assume "name \<noteq> [] \<and> registry_lookup ps name = None"
  then show "InitPlugin enabledFn ps name config ini w =
      Return ((None, Some (UnknownPlugin name)), w)"
    by (simp add: InitPlugin_def getPlugin_unknown)
next
  assume a: "name \<noteq> [] \<and> registry_lookup ps name = Some f \<and>
    splitStream config (mem w) = Return ((config1, config2, None), m1) \<and>
    enabledFn name config1 m1 = (False, m2)"
  then have "getPlugin enabledFn ps name config w =
     Return ((None, True, None),
       \<lparr>mem = m2, log = log w @ [CallPluginEnabledFn name config1 False]\<rparr>)"
    using getPlugin_disabled [of ps name f config w config1 config2 m1 enabledFn m2]
    by simp
  from InitPlugin_after_getPlugin [OF _ this] a
  show "\<exists>w'. InitPlugin enabledFn ps name config ini w = Return ((None, None), w')"
    by (simp add: ValidateInitialization_def)
next
  assume a: "name \<noteq> [] \<and> registry_lookup ps name = Some f \<and>
    splitStream config (mem w) = Return ((config1, config2, None), m1) \<and>
    enabledFn name config1 m1 = (True, m2) \<and> f config2 m2 = ((ret, Some e), m3)"
  then have "getPlugin enabledFn ps name config w =
     Return ((ret, True, Some e),
      \<lparr>mem = m3,
       log = log w @ [CallPluginEnabledFn name config1 True,
         CallFactory name config2 ret (Some e)]\<rparr>)"
    using getPlugin_enabled [of ps name f config w config1 config2 m1 enabledFn m2 ret "Some e" m3]
    by simp
  with a show "\<exists>w'. InitPlugin enabledFn ps name config ini w =
      Return ((None, Some (CouldntInit name e)), w')"
    by (simp add: InitPlugin_def)
qed simp_all

lemma InitPlugin_initializer_log:
  assumes "getPlugin enabledFn ps name config w = Return ((plugin, found, err), w1)"
  shows "\<exists>res w' evs. InitPlugin enabledFn ps name config ini w = Return (res, w') \<and>
     log w' = log w @ evs \<and>
     initialize_calls evs =
       (if name \<noteq> [] \<and> found \<and> err = None
        then map (\<lambda>f. (f, plugin)) (initializers ini) else [])"
proof -
  from getPlugin_log [OF assms] obtain evs1 where
    l1: "log w1 = log w @ evs1" and i1: "initialize_calls evs1 = []"
    by blast
  show ?thesis
  proof (cases "name \<noteq> [] \<and> found \<and> err = None")
    case False
    show ?thesis
    proof (cases "name = []")
      case True
      then have "InitPlugin enabledFn ps name config ini w =
          Return ((None, None), w\<lparr>log := log w @ [InfoNoPluginSpecified]\<rparr>)"
        by (simp add: InitPlugin_def)
      moreover have "log (w\<lparr>log := log w @ [InfoNoPluginSpecified]\<rparr>) =
          log w @ [InfoNoPluginSpecified]" by simp
      moreover have "initialize_calls [InfoNoPluginSpecified] = []" by simp
      ultimately show ?thesis using True by auto
    next
      case nonempty: False
      with False assms have "\<exists>res. InitPlugin enabledFn ps name config ini w = Return (res, w1)"
        by (auto simp: InitPlugin_def split: option.splits)
      with l1 i1 False show ?thesis by auto
    qed
  next
    case True
    then have g: "getPlugin enabledFn ps name config w = Return ((plugin, True, None), w1)"
      and n: "name \<noteq> []"
      using assms by simp_all
    obtain verr w3 where
      v: "ValidateInitialization plugin (Initialize ini plugin w1) = (verr, w3)"
      by (cases "ValidateInitialization plugin (Initialize ini plugin w1)")
    from ValidateInitialization_log [OF v] obtain evs3 where
      l3: "log w3 = log (Initialize ini plugin w1) @ evs3" and i3: "initialize_calls evs3 = []"
      by blast
    have "\<exists>res. InitPlugin enabledFn ps name config ini w = Return (res, w3)"
      using InitPlugin_after_getPlugin [OF n g, of ini] v by (auto split: option.splits)
    moreover have "log w3 =
        log w @ (evs1 @ map (\<lambda>f. CallInitialize f plugin) (initializers ini) @ evs3)"
      using l3 l1 by (simp add: Initialize_runs)
    moreover have "initialize_calls
        (evs1 @ map (\<lambda>f. CallInitialize f plugin) (initializers ini) @ evs3) =
        map (\<lambda>f. (f, plugin)) (initializers ini)"
      using i1 i3 by simp
    ultimately show ?thesis using True by auto
  qed
qed

text \<open>
  C3, as the code has it. When \<open>getPlugin\<close> returns, \<open>InitPlugin\<close> returns, and the
  initializer calls it makes are: every initializer of the set, once each and in order,
  with the plugin that \<open>getPlugin\<close> returned, when the name is not empty, \<open>getPlugin\<close>
  found it and returned no error; and none otherwise. What \<open>getPlugin\<close> returns is fixed
  by the registry, the configuration, the enablement predicate and the factory: the name
  is found exactly when it is registered, and an unregistered name returns at once; a
  configuration that cannot be read gives that error; a plugin disabled by the enablement
  predicate gives no error and a \<^verbatim>\<open>nil\<close> plugin, so the initializers are then called
  with \<^verbatim>\<open>nil\<close>; an enabled plugin gives what the factory returned, its error included.
  So no initializer is called for an empty name, an unknown name, an unreadable
  configuration or a factory that fails. With an empty name nothing is called at all, a
  panic of \<open>splitStream\<close> is a panic of \<open>getPlugin\<close>, and a panic of \<open>getPlugin\<close> is a
  panic of \<open>InitPlugin\<close>.
\<close>

theorem InitPlugin_initializer_calls:
  "(name = [] \<longrightarrow>
      InitPlugin enabledFn ps name config ini w =
        Return ((None, None), w\<lparr>log := log w @ [InfoNoPluginSpecified]\<rparr>)) \<and>
   (name \<noteq> [] \<and> getPlugin enabledFn ps name config w = Panic msg \<longrightarrow>
      InitPlugin enabledFn ps name config ini w = Panic msg) \<and>
   (getPlugin enabledFn ps name config w = Return ((plugin, found, err), w1) \<longrightarrow>
      (\<exists>res w' evs. InitPlugin enabledFn ps name config ini w = Return (res, w') \<and>
         log w' = log w @ evs \<and>
         initialize_calls evs =
           (if name \<noteq> [] \<and> found \<and> err = None
            then map (\<lambda>f. (f, plugin)) (initializers ini) else [])) \<and>
      (found \<longleftrightarrow> registry_lookup ps name \<noteq> None)) \<and>
   (registry_lookup ps name = None \<longrightarrow>
      getPlugin enabledFn ps name config w = Return ((None, False, None), w)) \<and>
   (registry_lookup ps name = Some f \<and> splitStream config (mem w) = Panic msg \<longrightarrow>
      getPlugin enabledFn ps name config w = Panic msg) \<and>
   (registry_lookup ps name = Some f \<and>
    splitStream config (mem w) = Return ((config1, config2, Some e), m1) \<longrightarrow>
      getPlugin enabledFn ps name config w = Return ((None, True, Some e), w\<lparr>mem := m1\<rparr>)) \<and>
   (registry_lookup ps name = Some f \<and>
    splitStream config (mem w) = Return ((config1, config2, None), m1) \<and>
    enabledFn name config1 m1 = (False, m2) \<longrightarrow>
      getPlugin enabledFn ps name config w =
        Return ((None, True, None),
          \<lparr>mem = m2, log = log w @ [CallPluginEnabledFn name config1 False]\<rparr>)) \<and>
   (registry_lookup ps name = Some f \<and>
    splitStream config (mem w) = Return ((config1, config2, None), m1) \<and>
    enabledFn name config1 m1 = (True, m2) \<and> f config2 m2 = ((ret, ferr), m3) \<longrightarrow>
      getPlugin enabledFn ps name config w =
        Return ((ret, True, ferr),
          \<lparr>mem = m3,
           log = log w @ [CallPluginEnabledFn name config1 True,
             CallFactory name config2 ret ferr]\<rparr>)) \<and>
   (name \<noteq> [] \<and> registry_lookup ps name = None \<longrightarrow>
      (\<exists>res w' evs. InitPlugin enabledFn ps name config ini w = Return (res, w') \<and>
         log w' = log w @ evs \<and> initialize_calls evs = [])) \<and>
   (name \<noteq> [] \<and> registry_lookup ps name = Some f \<and>
    splitStream config (mem w) = Panic msg \<longrightarrow>
      InitPlugin enabledFn ps name config ini w = Panic msg) \<and>
   (name \<noteq> [] \<and> registry_lookup ps name = Some f \<and>
    splitStream config (mem w) = Return ((config1, config2, Some e), m1) \<longrightarrow>
      (\<exists>res w' evs. InitPlugin enabledFn ps name config ini w = Return (res, w') \<and>
         log w' = log w @ evs \<and> initialize_calls evs = [])) \<and>
   (name \<noteq> [] \<and> registry_lookup ps name = Some f \<and>
    splitStream config (mem w) = Return ((config1, config2, None), m1) \<and>
    enabledFn name config1 m1 = (False, m2) \<longrightarrow>
      (\<exists>res w' evs. InitPlugin enabledFn ps name config ini w = Return (res, w') \<and>
         log w' = log w @ evs \<and>
         initialize_calls evs = map (\<lambda>f. (f, None)) (initializers ini))) \<and>
   (name \<noteq> [] \<and> registry_lookup ps name = Some f \<and>
    splitStream config (mem w) = Return ((config1, config2, None), m1) \<and>
    enabledFn name config1 m1 = (True, m2) \<and> f config2 m2 = ((ret, ferr), m3) \<longrightarrow>
      (\<exists>res w' evs. InitPlugin enabledFn ps name config ini w = Return (res, w') \<and>
         log w' = log w @ evs \<and>
         initialize_calls evs =
           (if ferr = None then map (\<lambda>f. (f, ret)) (initializers ini) else [])))"
proof (intro conjI impI)
  assume "name = []"
  then show "InitPlugin enabledFn ps name config ini w =
        Return ((None, None), w\<lparr>log := log w @ [InfoNoPluginSpecified]\<rparr>)"
    by (simp add: InitPlugin_def)
next
  assume "name \<noteq> [] \<and> getPlugin enabledFn ps name config w = Panic msg"
  then show "InitPlugin enabledFn ps name config ini w = Panic msg"
    by (simp add: InitPlugin_panics)
next
  assume g: "getPlugin enabledFn ps name config w = Return ((plugin, found, err), w1)"
  show "\<exists>res w' evs. InitPlugin enabledFn ps name config ini w = Return (res, w') \<and>
         log w' = log w @ evs \<and>
         initialize_calls evs =
           (if name \<noteq> [] \<and> found \<and> err = None
            then map (\<lambda>f. (f, plugin)) (initializers ini) else [])"
    by (rule InitPlugin_initializer_log [OF g])
  show "found \<longleftrightarrow> registry_lookup ps name \<noteq> None"
    using getPlugin_log [OF g] by blast
next
  assume "registry_lookup ps name = None"
  then show "getPlugin enabledFn ps name config w = Return ((None, False, None), w)"
    by (rule getPlugin_unknown)
next
  assume "registry_lookup ps name = Some f \<and> splitStream config (mem w) = Panic msg"
  then show "getPlugin enabledFn ps name config w = Panic msg"
    by (simp add: getPlugin_panics)
next
  assume "registry_lookup ps name = Some f \<and>
    splitStream config (mem w) = Return ((config1, config2, Some e), m1)"
  then show "getPlugin enabledFn ps name config w =
      Return ((None, True, Some e), w\<lparr>mem := m1\<rparr>)"
    by (simp add: getPlugin_def)
next
  assume "registry_lookup ps name = Some f \<and>
    splitStream config (mem w) = Return ((config1, config2, None), m1) \<and>
    enabledFn name config1 m1 = (False, m2)"
  then show "getPlugin enabledFn ps name config w =
        Return ((None, True, None),
          \<lparr>mem = m2, log = log w @ [CallPluginEnabledFn name config1 False]\<rparr>)"
    by (simp add: getPlugin_def call_PluginEnabledFn_def)
next
  assume "registry_lookup ps name = Some f \<and>
    splitStream config (mem w) = Return ((config1, config2, None), m1) \<and>
    enabledFn name config1 m1 = (True, m2) \<and> f config2 m2 = ((ret, ferr), m3)"
  then show "getPlugin enabledFn ps name config w =
        Return ((ret, True, ferr),
          \<lparr>mem = m3,
           log = log w @ [CallPluginEnabledFn name config1 True,
             CallFactory name config2 ret ferr]\<rparr>)"
    by (simp add: getPlugin_def call_PluginEnabledFn_def call_Factory_def)
next
  assume a: "name \<noteq> [] \<and> registry_lookup ps name = None"
  then have "getPlugin enabledFn ps name config w = Return ((None, False, None), w)"
    by (simp add: getPlugin_unknown)
  from InitPlugin_initializer_log [OF this, of ini]
  show "\<exists>res w' evs. InitPlugin enabledFn ps name config ini w = Return (res, w') \<and>
         log w' = log w @ evs \<and> initialize_calls evs = []"
    by simp
next
  assume a: "name \<noteq> [] \<and> registry_lookup ps name = Some f \<and>
    splitStream config (mem w) = Panic msg"
  then have "getPlugin enabledFn ps name config w = Panic msg"
    by (simp add: getPlugin_panics)
  with a show "InitPlugin enabledFn ps name config ini w = Panic msg"
    by (simp add: InitPlugin_panics)
next
  assume a: "name \<noteq> [] \<and> registry_lookup ps name = Some f \<and>
    splitStream config (mem w) = Return ((config1, config2, Some e), m1)"
  then have "getPlugin enabledFn ps name config w =
      Return ((None, True, Some e), w\<lparr>mem := m1\<rparr>)"
    by (simp add: getPlugin_def)
  from InitPlugin_initializer_log [OF this, of ini]
  show "\<exists>res w' evs. InitPlugin enabledFn ps name config ini w = Return (res, w') \<and>
         log w' = log w @ evs \<and> initialize_calls evs = []"
    by simp
next
  assume a: "name \<noteq> [] \<and> registry_lookup ps name = Some f \<and>
    splitStream config (mem w) = Return ((config1, config2, None), m1) \<and>
    enabledFn name config1 m1 = (False, m2)"
  then have "getPlugin enabledFn ps name config w =
        Return ((None, True, None),
          \<lparr>mem = m2, log = log w @ [CallPluginEnabledFn name config1 False]\<rparr>)"
    by (simp add: getPlugin_def call_PluginEnabledFn_def)
  from InitPlugin_initializer_log [OF this, of ini] a
  show "\<exists>res w' evs. InitPlugin enabledFn ps name config ini w = Return (res, w') \<and>
         log w' = log w @ evs \<and>
         initialize_calls evs = map (\<lambda>f. (f, None)) (initializers ini)"
    by simp
next
  assume a: "name \<noteq> [] \<and> registry_lookup ps name = Some f \<and>
    splitStream config (mem w) = Return ((config1, config2, None), m1) \<and>
    enabledFn name config1 m1 = (True, m2) \<and> f config2 m2 = ((ret, ferr), m3)"
  then have "getPlugin enabledFn ps name config w =
        Return ((ret, True, ferr),
          \<lparr>mem = m3,
           log = log w @ [CallPluginEnabledFn name config1 True,
             CallFactory name config2 ret ferr]\<rparr>)"
    by (simp add: getPlugin_def call_PluginEnabledFn_def call_Factory_def)
  from InitPlugin_initializer_log [OF this, of ini] a
  show "\<exists>res w' evs. InitPlugin enabledFn ps name config ini w = Return (res, w') \<and>
         log w' = log w @ evs \<and>
         initialize_calls evs =
           (if ferr = None then map (\<lambda>f. (f, ret)) (initializers ini) else [])"
    by simp
qed

lemma restaurant_lookup:
  "registry_lookup restaurant_plugins ''PizzaToppings'' = Some (factory_of wants_informer)"
  "registry_lookup restaurant_plugins ''Defaulter'' = Some (factory_of mutator_P1)"
  "registry_lookup restaurant_plugins ''Broken'' = Some failing_factory"
  "registry_lookup restaurant_plugins ''Missing'' = None"
  by (simp_all add: restaurant_plugins_def registry_lookup_def)

theorem InitPlugin_results_witness:
  "(\<exists>w'. InitPlugin PluginEnabledFn_default restaurant_plugins [] NilInterface
         (PluginInitializers [Initializer inject_informer]) world0 =
         Return ((None, None), w')) \<and>
   ''Missing'' \<noteq> [] \<and> registry_lookup restaurant_plugins ''Missing'' = None \<and>
   InitPlugin PluginEnabledFn_default restaurant_plugins ''Missing'' NilInterface
     (PluginInitializers [Initializer inject_informer]) world0 =
     Return ((None, Some (UnknownPlugin ''Missing'')), world0) \<and>
   ''Defaulter'' \<noteq> [] \<and>
   registry_lookup restaurant_plugins ''Defaulter'' = Some (factory_of mutator_P1) \<and>
   splitStream NilInterface (mem world0) =
     Return ((NilInterface, NilInterface, None), mem0) \<and>
   never_enabled ''Defaulter'' NilInterface mem0 = (False, mem0) \<and>
   (\<exists>w'. InitPlugin never_enabled restaurant_plugins ''Defaulter'' NilInterface
         (PluginInitializers [Initializer inject_informer]) world0 =
         Return ((None, None), w')) \<and>
   ''Broken'' \<noteq> [] \<and> registry_lookup restaurant_plugins ''Broken'' = Some failing_factory \<and>
   PluginEnabledFn_default ''Broken'' NilInterface mem0 = (True, mem0) \<and>
   failing_factory NilInterface mem0 = ((None, Some bad_config), mem0) \<and>
   (\<exists>w'. InitPlugin PluginEnabledFn_default restaurant_plugins ''Broken'' NilInterface
         (PluginInitializers [Initializer inject_informer]) world0 =
         Return ((None, Some (CouldntInit ''Broken'' bad_config)), w'))"
proof -
  have s: "splitStream NilInterface (mem world0) =
      Return ((NilInterface, NilInterface, None), mem0)"
    by (simp add: world0_def)
  have d: "never_enabled ''Defaulter'' NilInterface mem0 = (False, mem0)"
    by (simp add: never_enabled_def)
  have e: "PluginEnabledFn_default ''Broken'' NilInterface mem0 = (True, mem0)"
    by (simp add: PluginEnabledFn_default_def)
  have f: "failing_factory NilInterface mem0 = ((None, Some bad_config), mem0)"
    by (simp add: failing_factory_def)
  have n: "''Missing'' \<noteq> []" "''Defaulter'' \<noteq> []" "''Broken'' \<noteq> []" by simp_all
  from InitPlugin_results [where name = "[]" and enabledFn = PluginEnabledFn_default
      and ps = restaurant_plugins and config = NilInterface and w = world0
      and ini = "PluginInitializers [Initializer inject_informer]"]
  have 1: "\<exists>w'. InitPlugin PluginEnabledFn_default restaurant_plugins [] NilInterface
         (PluginInitializers [Initializer inject_informer]) world0 =
         Return ((None, None), w')"
    by blast
  from InitPlugin_results [where name = "''Missing''" and enabledFn = PluginEnabledFn_default
      and ps = restaurant_plugins and config = NilInterface and w = world0
      and ini = "PluginInitializers [Initializer inject_informer]"] n restaurant_lookup
  have 2: "InitPlugin PluginEnabledFn_default restaurant_plugins ''Missing'' NilInterface
     (PluginInitializers [Initializer inject_informer]) world0 =
     Return ((None, Some (UnknownPlugin ''Missing'')), world0)"
    by blast
  from InitPlugin_results [where name = "''Defaulter''" and enabledFn = never_enabled
      and ps = restaurant_plugins and config = NilInterface and w = world0
      and ini = "PluginInitializers [Initializer inject_informer]"
      and f = "factory_of mutator_P1" and ?config1.0 = NilInterface
      and ?config2.0 = NilInterface and ?m1.0 = mem0 and ?m2.0 = mem0] n restaurant_lookup s d
  have 3: "\<exists>w'. InitPlugin never_enabled restaurant_plugins ''Defaulter'' NilInterface
         (PluginInitializers [Initializer inject_informer]) world0 =
         Return ((None, None), w')"
    by blast
  from InitPlugin_results [where name = "''Broken''" and enabledFn = PluginEnabledFn_default
      and ps = restaurant_plugins and config = NilInterface and w = world0
      and ini = "PluginInitializers [Initializer inject_informer]"
      and f = failing_factory and ?config1.0 = NilInterface
      and ?config2.0 = NilInterface and ?m1.0 = mem0 and ?m2.0 = mem0
      and ret = None and e = bad_config and ?m3.0 = mem0] n restaurant_lookup s e f
  have 4: "\<exists>w'. InitPlugin PluginEnabledFn_default restaurant_plugins ''Broken'' NilInterface
         (PluginInitializers [Initializer inject_informer]) world0 =
         Return ((None, Some (CouldntInit ''Broken'' bad_config)), w')"
    by blast
  from 1 2 3 4 s d e f n restaurant_lookup show ?thesis by blast
qed

lemma InitPlugin_disabled_example:
  "InitPlugin never_enabled restaurant_plugins ''Defaulter'' NilInterface
     (PluginInitializers [Initializer inject_informer]) world0 =
   Return ((None, None),
    \<lparr>mem = mem0\<lparr>user := 7\<rparr>,
     log = [CallPluginEnabledFn ''Defaulter'' NilInterface False,
            CallInitialize inject_informer None]\<rparr>)"
  by (simp add: InitPlugin_def getPlugin_def restaurant_lookup world0_def never_enabled_def
      call_PluginEnabledFn_def ValidateInitialization_def inject_informer_def)

lemma getPlugin_disabled_example:
  "getPlugin never_enabled restaurant_plugins ''Defaulter'' NilInterface world0 =
   Return ((None, True, None),
    \<lparr>mem = mem0, log = [CallPluginEnabledFn ''Defaulter'' NilInterface False]\<rparr>)"
  by (simp add: getPlugin_def restaurant_lookup world0_def never_enabled_def
      call_PluginEnabledFn_def)

lemma getPlugin_Broken_example:
  "getPlugin PluginEnabledFn_default restaurant_plugins ''Broken'' NilInterface world0 =
   Return ((None, True, Some bad_config),
    \<lparr>mem = mem0,
     log = [CallPluginEnabledFn ''Broken'' NilInterface True,
            CallFactory ''Broken'' NilInterface None (Some bad_config)]\<rparr>)"
  by (simp add: getPlugin_def restaurant_lookup world0_def PluginEnabledFn_default_def
      call_PluginEnabledFn_def call_Factory_def failing_factory_def)

lemma InitPlugin_Broken_example:
  "InitPlugin PluginEnabledFn_default restaurant_plugins ''Broken'' NilInterface
     (PluginInitializers [Initializer inject_informer]) world0 =
   Return ((None, Some (CouldntInit ''Broken'' bad_config)),
    \<lparr>mem = mem0,
     log = [CallPluginEnabledFn ''Broken'' NilInterface True,
            CallFactory ''Broken'' NilInterface None (Some bad_config)]\<rparr>)"
  by (simp add: InitPlugin_def getPlugin_Broken_example)

text \<open>
  C3, as stated, fails on a disabled name: the plugin \<^verbatim>\<open>Defaulter\<close> is registered, the
  enablement predicate returns false for it, and \<open>InitPlugin\<close> calls the initializer,
  with \<^verbatim>\<open>nil\<close>, which here writes the memory.
\<close>

theorem InitPlugin_initializes_disabled_plugin:
  "registry_lookup restaurant_plugins ''Defaulter'' = Some (factory_of mutator_P1) \<and>
   never_enabled ''Defaulter'' NilInterface mem0 = (False, mem0) \<and>
   InitPlugin never_enabled restaurant_plugins ''Defaulter'' NilInterface
     (PluginInitializers [Initializer inject_informer]) world0 =
   Return ((None, None),
    \<lparr>mem = mem0\<lparr>user := 7\<rparr>,
     log = [CallPluginEnabledFn ''Defaulter'' NilInterface False,
            CallInitialize inject_informer None]\<rparr>) \<and>
   initialize_calls
     [CallPluginEnabledFn ''Defaulter'' NilInterface False,
      CallInitialize inject_informer None] =
     [(inject_informer, None)]"
  by (simp add: InitPlugin_disabled_example restaurant_lookup never_enabled_def)

theorem InitPlugin_initializer_calls_witness:
  "getPlugin never_enabled restaurant_plugins ''Defaulter'' NilInterface world0 =
   Return ((None, True, None),
    \<lparr>mem = mem0, log = [CallPluginEnabledFn ''Defaulter'' NilInterface False]\<rparr>) \<and>
   registry_lookup restaurant_plugins ''Defaulter'' = Some (factory_of mutator_P1) \<and>
   splitStream NilInterface (mem world0) =
     Return ((NilInterface, NilInterface, None), mem0) \<and>
   never_enabled ''Defaulter'' NilInterface mem0 = (False, mem0) \<and>
   (\<exists>res w' evs.
      InitPlugin never_enabled restaurant_plugins ''Defaulter'' NilInterface
        (PluginInitializers [Initializer inject_informer]) world0 = Return (res, w') \<and>
      log w' = log world0 @ evs \<and>
      initialize_calls evs = [(inject_informer, None)]) \<and>
   getPlugin PluginEnabledFn_default restaurant_plugins ''Broken'' NilInterface world0 =
   Return ((None, True, Some bad_config),
    \<lparr>mem = mem0,
     log = [CallPluginEnabledFn ''Broken'' NilInterface True,
            CallFactory ''Broken'' NilInterface None (Some bad_config)]\<rparr>) \<and>
   registry_lookup restaurant_plugins ''Broken'' = Some failing_factory \<and>
   PluginEnabledFn_default ''Broken'' NilInterface mem0 = (True, mem0) \<and>
   failing_factory NilInterface mem0 = ((None, Some bad_config), mem0) \<and>
   (\<exists>res w' evs.
      InitPlugin PluginEnabledFn_default restaurant_plugins ''Broken'' NilInterface
        (PluginInitializers [Initializer inject_informer]) world0 = Return (res, w') \<and>
      log w' = log world0 @ evs \<and>
      initialize_calls evs = [])"
proof -
  have s: "splitStream NilInterface (mem world0) =
      Return ((NilInterface, NilInterface, None), mem0)"
    by (simp add: world0_def)
  have d: "never_enabled ''Defaulter'' NilInterface mem0 = (False, mem0)"
    by (simp add: never_enabled_def)
  have e: "PluginEnabledFn_default ''Broken'' NilInterface mem0 = (True, mem0)"
    by (simp add: PluginEnabledFn_default_def)
  have f: "failing_factory NilInterface mem0 = ((None, Some bad_config), mem0)"
    by (simp add: failing_factory_def)
  from InitPlugin_initializer_calls [where name = "''Defaulter''" and enabledFn = never_enabled
      and ps = restaurant_plugins and config = NilInterface and w = world0
      and ini = "PluginInitializers [Initializer inject_informer]"
      and plugin = None and found = True and err = None] getPlugin_disabled_example
  have 1: "\<exists>res w' evs.
      InitPlugin never_enabled restaurant_plugins ''Defaulter'' NilInterface
        (PluginInitializers [Initializer inject_informer]) world0 = Return (res, w') \<and>
      log w' = log world0 @ evs \<and>
      initialize_calls evs = [(inject_informer, None)]"
    by simp
  from InitPlugin_initializer_calls [where name = "''Broken''"
      and enabledFn = PluginEnabledFn_default
      and ps = restaurant_plugins and config = NilInterface and w = world0
      and ini = "PluginInitializers [Initializer inject_informer]"
      and plugin = None and found = True and err = "Some bad_config"] getPlugin_Broken_example
  have 2: "\<exists>res w' evs.
      InitPlugin PluginEnabledFn_default restaurant_plugins ''Broken'' NilInterface
        (PluginInitializers [Initializer inject_informer]) world0 = Return (res, w') \<and>
      log w' = log world0 @ evs \<and>
      initialize_calls evs = []"
    by simp
  from 1 2 s d e f getPlugin_disabled_example getPlugin_Broken_example restaurant_lookup
  show ?thesis by blast
qed

section \<open>Chain construction\<close>

lemma NewFromPlugins_loop_append:
  "NewFromPlugins_loop enabledFn ps cp ini dec (xs @ ys) acc w =
     (case NewFromPlugins_loop enabledFn ps cp ini dec xs acc w of
        Panic msg \<Rightarrow> Panic msg
      | Return (Inl e, w1) \<Rightarrow> Return (Inl e, w1)
      | Return (Inr acc1, w1) \<Rightarrow> NewFromPlugins_loop enabledFn ps cp ini dec ys acc1 w1)"
  by (induction xs arbitrary: acc w)
    (simp_all split: prod.splits sum.splits completion.splits)

lemma NewFromPlugins_body_fails:
  "call_ConfigFor cp name w = ((cfg, cerr), w1) \<Longrightarrow>
   cerr = Some e \<or>
     cerr = None \<and> InitPlugin enabledFn ps name cfg ini w1 = Return ((pl, Some e), w2) \<Longrightarrow>
   NewFromPlugins_body enabledFn ps cp ini dec name acc w =
     Return (Inl e, if cerr = None then w2 else w1)"
  by (auto simp: NewFromPlugins_body_def split: option.splits)

lemma NewFromPlugins_body_appends:
  "call_ConfigFor cp name w = ((cfg, None), w1) \<Longrightarrow>
   InitPlugin enabledFn ps name cfg ini w1 = Return ((Some p, None), w2) \<Longrightarrow>
   call_Decorate decorate p name w2 = (h, w3) \<Longrightarrow>
   NewFromPlugins_body enabledFn ps cp ini (Some decorate) name acc w =
     Return (Inr \<lparr>handlers = handlers acc @ [h],
                  mutationPlugins = mutationPlugins acc @ (if Admit_m p \<noteq> None then [name] else []),
                  validationPlugins =
                    validationPlugins acc @ (if Validate_m p \<noteq> None then [name] else [])\<rparr>, w3)"
  by (simp add: NewFromPlugins_body_def)

lemma NewFromPlugins_loop_fails:
  assumes "NewFromPlugins_loop enabledFn ps cp ini dec pre acc0 w0 = Return (Inr acc, w)"
    and "NewFromPlugins_body enabledFn ps cp ini dec name acc w = Return (Inl e, w')"
  shows "NewFromPlugins_loop enabledFn ps cp ini dec (pre @ name # post) acc0 w0 =
    Return (Inl e, w')"
  using assms by (simp add: NewFromPlugins_loop_append)

lemma NewFromPlugins_fails:
  assumes "NewFromPlugins_loop enabledFn ps cp ini dec pre
             \<lparr>handlers = [], mutationPlugins = [], validationPlugins = []\<rparr> w0 =
           Return (Inr acc, w)"
    and "NewFromPlugins_body enabledFn ps cp ini dec name acc w = Return (Inl e, w')"
  shows "NewFromPlugins enabledFn ps (pre @ name # post) cp ini dec w0 =
    Return ((None, Some e), w')"
  using NewFromPlugins_loop_fails [OF assms] by (simp add: NewFromPlugins_def)

text \<open>
  C7. Let \<open>getPlugin\<close> have found the name and returned the plugin \<open>p\<close> without
  error. If \<open>p\<close> has no \<^verbatim>\<open>ValidateInitialization\<close>, \<open>InitPlugin\<close> returns \<open>p\<close> right
  after the initializers have run. If it has, the method is called once, after all
  initializer calls and on the memory they left. When it returns no error, \<open>InitPlugin\<close>
  returns \<open>p\<close>. When it returns the error \<open>e\<close>, \<open>InitPlugin\<close> returns no plugin and
  the error \<^verbatim>\<open>failed to initialize admission plugin "name": e\<close>, and every
  \<open>NewFromPlugins\<close> that reaches this name with this outcome returns that error and no
  chain.
\<close>

theorem InitPlugin_validates_initialization:
  assumes "name \<noteq> []"
    and "getPlugin enabledFn ps name config w = Return ((Some p, True, None), w1)"
  shows "case ValidateInitialization_m p of
      None \<Rightarrow>
        InitPlugin enabledFn ps name config ini w =
          Return ((Some p, None), Initialize ini (Some p) w1)
    | Some validater \<Rightarrow>
        (case validater (mem (Initialize ini (Some p) w1)) of
           (None, m) \<Rightarrow>
             InitPlugin enabledFn ps name config ini w =
               Return ((Some p, None),
                \<lparr>mem = m,
                 log = log w1 @ map (\<lambda>f. CallInitialize f (Some p)) (initializers ini)
                   @ [CallValidateInitialization p None]\<rparr>)
         | (Some e, m) \<Rightarrow>
             InitPlugin enabledFn ps name config ini w =
               Return ((None, Some (FailedToInitialize name e)),
                \<lparr>mem = m,
                 log = log w1 @ map (\<lambda>f. CallInitialize f (Some p)) (initializers ini)
                   @ [CallValidateInitialization p (Some e)]\<rparr>) \<and>
             (\<forall>q. error_text q (FailedToInitialize name e) =
                ''failed to initialize admission plugin '' @ q name @ '': '' @ error_text q e) \<and>
             (\<forall>cp dec pre post acc w0 wa.
                NewFromPlugins_loop enabledFn ps cp ini dec pre
                  \<lparr>handlers = [], mutationPlugins = [], validationPlugins = []\<rparr> w0 =
                  Return (Inr acc, wa) \<and>
                call_ConfigFor cp name wa = ((config, None), w) \<longrightarrow>
                (\<exists>w'. NewFromPlugins enabledFn ps (pre @ name # post) cp ini dec w0 =
                   Return ((None, Some (FailedToInitialize name e)), w'))))"
proof (cases "ValidateInitialization_m p")
  case None
  with assms show ?thesis
    by (simp add: InitPlugin_def ValidateInitialization_def)
next
  case (Some validater)
  obtain verr m where v: "validater (mem (Initialize ini (Some p) w1)) = (verr, m)"
    by (cases "validater (mem (Initialize ini (Some p) w1))")
  have l: "log (Initialize ini (Some p) w1) =
      log w1 @ map (\<lambda>f. CallInitialize f (Some p)) (initializers ini)"
    by (simp add: Initialize_runs)
  show ?thesis
  proof (cases verr)
    case None
    with assms Some v l show ?thesis
      by (simp add: InitPlugin_def ValidateInitialization_def)
  next
    case (Some e)
    have r: "InitPlugin enabledFn ps name config ini w =
               Return ((None, Some (FailedToInitialize name e)),
                \<lparr>mem = m,
                 log = log w1 @ map (\<lambda>f. CallInitialize f (Some p)) (initializers ini)
                   @ [CallValidateInitialization p (Some e)]\<rparr>)"
      using assms \<open>ValidateInitialization_m p = Some validater\<close> v l Some
      by (simp add: InitPlugin_def ValidateInitialization_def)
    have nf: "\<forall>cp dec pre post acc w0 wa.
                NewFromPlugins_loop enabledFn ps cp ini dec pre
                  \<lparr>handlers = [], mutationPlugins = [], validationPlugins = []\<rparr> w0 =
                  Return (Inr acc, wa) \<and>
                call_ConfigFor cp name wa = ((config, None), w) \<longrightarrow>
                (\<exists>w'. NewFromPlugins enabledFn ps (pre @ name # post) cp ini dec w0 =
                   Return ((None, Some (FailedToInitialize name e)), w'))"
    proof (intro allI impI, elim conjE)
      fix cp dec pre post acc w0 wa
      assume lp: "NewFromPlugins_loop enabledFn ps cp ini dec pre
                  \<lparr>handlers = [], mutationPlugins = [], validationPlugins = []\<rparr> w0 =
                  Return (Inr acc, wa)"
        and c: "call_ConfigFor cp name wa = ((config, None), w)"
      from NewFromPlugins_body_fails [OF c, of "FailedToInitialize name e" enabledFn ps ini]
        r
      have "NewFromPlugins_body enabledFn ps cp ini dec name acc wa =
         Return (Inl (FailedToInitialize name e),
          \<lparr>mem = m,
                 log = log w1 @ map (\<lambda>f. CallInitialize f (Some p)) (initializers ini)
                   @ [CallValidateInitialization p (Some e)]\<rparr>)"
        by simp
      from NewFromPlugins_fails [OF lp this]
      show "\<exists>w'. NewFromPlugins enabledFn ps (pre @ name # post) cp ini dec w0 =
                   Return ((None, Some (FailedToInitialize name e)), w')"
        by blast
    qed
    from nf r Some v \<open>ValidateInitialization_m p = Some validater\<close> show ?thesis
      by (simp del: split_paired_All split_paired_Ex)
  qed
qed

lemmas construction_defs = NewFromPlugins_body_def call_ConfigFor_def call_Decorate_def
  InitPlugin_def getPlugin_def call_PluginEnabledFn_def call_Factory_def
  ValidateInitialization_def PluginEnabledFn_default_def no_config_def factory_of_def
  failing_factory_def restaurant_plugins_def registry_lookup_def world0_def

lemma Defaulter_loaded:
  "NewFromPlugins_loop PluginEnabledFn_default restaurant_plugins no_config
     (PluginInitializers []) None [''Defaulter'']
     \<lparr>handlers = [], mutationPlugins = [], validationPlugins = []\<rparr> world0 =
   Return
    (Inr \<lparr>handlers = [mutator_P1], mutationPlugins = [''Defaulter''], validationPlugins = []\<rparr>,
     \<lparr>mem = mem0,
      log = [CallConfigFor ''Defaulter'' NilInterface None,
             CallPluginEnabledFn ''Defaulter'' NilInterface True,
             CallFactory ''Defaulter'' NilInterface (Some mutator_P1) None]\<rparr>)"
  by (simp add: construction_defs mutator_P1_def)

lemma PizzaToppings_config:
  "call_ConfigFor no_config ''PizzaToppings''
     \<lparr>mem = mem0,
      log = [CallConfigFor ''Defaulter'' NilInterface None,
             CallPluginEnabledFn ''Defaulter'' NilInterface True,
             CallFactory ''Defaulter'' NilInterface (Some mutator_P1) None]\<rparr> =
   ((NilInterface, None),
    \<lparr>mem = mem0,
     log = [CallConfigFor ''Defaulter'' NilInterface None,
            CallPluginEnabledFn ''Defaulter'' NilInterface True,
            CallFactory ''Defaulter'' NilInterface (Some mutator_P1) None,
            CallConfigFor ''PizzaToppings'' NilInterface None]\<rparr>)"
  by (simp add: construction_defs)

lemma PizzaToppings_getPlugin:
  "getPlugin PluginEnabledFn_default restaurant_plugins ''PizzaToppings'' NilInterface
     \<lparr>mem = mem0,
      log = [CallConfigFor ''Defaulter'' NilInterface None,
             CallPluginEnabledFn ''Defaulter'' NilInterface True,
             CallFactory ''Defaulter'' NilInterface (Some mutator_P1) None,
             CallConfigFor ''PizzaToppings'' NilInterface None]\<rparr> =
   Return ((Some wants_informer, True, None),
    \<lparr>mem = mem0,
     log = [CallConfigFor ''Defaulter'' NilInterface None,
            CallPluginEnabledFn ''Defaulter'' NilInterface True,
            CallFactory ''Defaulter'' NilInterface (Some mutator_P1) None,
            CallConfigFor ''PizzaToppings'' NilInterface None,
            CallPluginEnabledFn ''PizzaToppings'' NilInterface True,
            CallFactory ''PizzaToppings'' NilInterface (Some wants_informer) None]\<rparr>)"
  by (simp add: construction_defs)

theorem InitPlugin_validates_initialization_witness:
  "''PizzaToppings'' \<noteq> [] \<and>
   getPlugin PluginEnabledFn_default restaurant_plugins ''PizzaToppings'' NilInterface
     \<lparr>mem = mem0,
      log = [CallConfigFor ''Defaulter'' NilInterface None,
             CallPluginEnabledFn ''Defaulter'' NilInterface True,
             CallFactory ''Defaulter'' NilInterface (Some mutator_P1) None,
             CallConfigFor ''PizzaToppings'' NilInterface None]\<rparr> =
   Return ((Some wants_informer, True, None),
    \<lparr>mem = mem0,
     log = [CallConfigFor ''Defaulter'' NilInterface None,
            CallPluginEnabledFn ''Defaulter'' NilInterface True,
            CallFactory ''Defaulter'' NilInterface (Some mutator_P1) None,
            CallConfigFor ''PizzaToppings'' NilInterface None,
            CallPluginEnabledFn ''PizzaToppings'' NilInterface True,
            CallFactory ''PizzaToppings'' NilInterface (Some wants_informer) None]\<rparr>) \<and>
   InitPlugin PluginEnabledFn_default restaurant_plugins ''PizzaToppings'' NilInterface
     (PluginInitializers [])
     \<lparr>mem = mem0,
      log = [CallConfigFor ''Defaulter'' NilInterface None,
             CallPluginEnabledFn ''Defaulter'' NilInterface True,
             CallFactory ''Defaulter'' NilInterface (Some mutator_P1) None,
             CallConfigFor ''PizzaToppings'' NilInterface None]\<rparr> =
   Return ((None, Some (FailedToInitialize ''PizzaToppings'' missing_informer)),
    \<lparr>mem = mem0,
     log = [CallConfigFor ''Defaulter'' NilInterface None,
            CallPluginEnabledFn ''Defaulter'' NilInterface True,
            CallFactory ''Defaulter'' NilInterface (Some mutator_P1) None,
            CallConfigFor ''PizzaToppings'' NilInterface None,
            CallPluginEnabledFn ''PizzaToppings'' NilInterface True,
            CallFactory ''PizzaToppings'' NilInterface (Some wants_informer) None,
            CallValidateInitialization wants_informer (Some missing_informer)]\<rparr>) \<and>
   (\<exists>w'. NewFromPlugins PluginEnabledFn_default restaurant_plugins
          ([''Defaulter''] @ ''PizzaToppings'' # [''Broken'']) no_config
          (PluginInitializers []) None world0 =
     Return ((None, Some (FailedToInitialize ''PizzaToppings'' missing_informer)), w'))"
proof -
  have n: "''PizzaToppings'' \<noteq> []" by simp
  have v: "ValidateInitialization_m wants_informer =
      Some (\<lambda>m. (if user m = 7 then None else Some missing_informer, m))"
    by (simp add: wants_informer_def)
  have z: "user mem0 \<noteq> 7" by (simp add: mem0_def)
  from InitPlugin_validates_initialization [OF n PizzaToppings_getPlugin,
      of "PluginInitializers []"] v z
  have r: "InitPlugin PluginEnabledFn_default restaurant_plugins ''PizzaToppings'' NilInterface
     (PluginInitializers [])
     \<lparr>mem = mem0,
      log = [CallConfigFor ''Defaulter'' NilInterface None,
             CallPluginEnabledFn ''Defaulter'' NilInterface True,
             CallFactory ''Defaulter'' NilInterface (Some mutator_P1) None,
             CallConfigFor ''PizzaToppings'' NilInterface None]\<rparr> =
   Return ((None, Some (FailedToInitialize ''PizzaToppings'' missing_informer)),
    \<lparr>mem = mem0,
     log = [CallConfigFor ''Defaulter'' NilInterface None,
            CallPluginEnabledFn ''Defaulter'' NilInterface True,
            CallFactory ''Defaulter'' NilInterface (Some mutator_P1) None,
            CallConfigFor ''PizzaToppings'' NilInterface None,
            CallPluginEnabledFn ''PizzaToppings'' NilInterface True,
            CallFactory ''PizzaToppings'' NilInterface (Some wants_informer) None,
            CallValidateInitialization wants_informer (Some missing_informer)]\<rparr>)"
    and a: "\<forall>cp dec pre post acc w0 wa.
       NewFromPlugins_loop PluginEnabledFn_default restaurant_plugins cp
         (PluginInitializers []) dec pre
         \<lparr>handlers = [], mutationPlugins = [], validationPlugins = []\<rparr> w0 =
         Return (Inr acc, wa) \<and>
       call_ConfigFor cp ''PizzaToppings'' wa =
         ((NilInterface, None),
          \<lparr>mem = mem0,
           log = [CallConfigFor ''Defaulter'' NilInterface None,
             CallPluginEnabledFn ''Defaulter'' NilInterface True,
             CallFactory ''Defaulter'' NilInterface (Some mutator_P1) None,
             CallConfigFor ''PizzaToppings'' NilInterface None]\<rparr>) \<longrightarrow>
       (\<exists>w'. NewFromPlugins PluginEnabledFn_default restaurant_plugins
          (pre @ ''PizzaToppings'' # post) cp (PluginInitializers []) dec w0 =
         Return ((None, Some (FailedToInitialize ''PizzaToppings'' missing_informer)), w'))"
    by (simp_all del: split_paired_All split_paired_Ex)
  from a Defaulter_loaded PizzaToppings_config
  have "\<exists>w'. NewFromPlugins PluginEnabledFn_default restaurant_plugins
          ([''Defaulter''] @ ''PizzaToppings'' # [''Broken'']) no_config
          (PluginInitializers []) None world0 =
     Return ((None, Some (FailedToInitialize ''PizzaToppings'' missing_informer)), w')"
    by blast
  with n r PizzaToppings_getPlugin show ?thesis by blast
qed

lemma factory_plugins_simps [simp]:
  "factory_plugins [] = []"
  "factory_plugins (ev # evs) = factory_plugin ev @ factory_plugins evs"
  "factory_plugins (xs @ ys) = factory_plugins xs @ factory_plugins ys"
  "factory_plugins (map (\<lambda>f. CallInitialize f plugin) fs) = []"
  by (simp_all add: factory_plugins_def)

lemma decorate_calls_simps [simp]:
  "decorate_calls [] = []"
  "decorate_calls (ev # evs) = decorate_call ev @ decorate_calls evs"
  "decorate_calls (xs @ ys) = decorate_calls xs @ decorate_calls ys"
  "decorate_calls (map (\<lambda>f. CallInitialize f plugin) fs) = []"
  by (simp_all add: decorate_calls_def)

lemma loaded_lines_simps [simp]:
  "loaded_lines [] = []"
  "loaded_lines (ev # evs) = loaded_line ev @ loaded_lines evs"
  "loaded_lines (xs @ ys) = loaded_lines xs @ loaded_lines ys"
  "loaded_lines (map (\<lambda>f. CallInitialize f plugin) fs) = []"
  by (simp_all add: loaded_lines_def)

lemma getPlugin_factory_log:
  "getPlugin enabledFn ps name config w = Return ((plugin, found, err), w1) \<Longrightarrow>
   \<exists>evs. log w1 = log w @ evs \<and>
     factory_plugins evs = (case plugin of Some p \<Rightarrow> [(name, p)] | None \<Rightarrow> []) \<and>
     decorate_calls evs = [] \<and> loaded_lines evs = []"
  by (auto simp: getPlugin_def call_PluginEnabledFn_def call_Factory_def
      split: option.splits prod.splits if_splits completion.splits)

lemma ValidateInitialization_quiet:
  "ValidateInitialization plugin w = (err, w1) \<Longrightarrow>
   \<exists>evs. log w1 = log w @ evs \<and> factory_plugins evs = [] \<and>
     decorate_calls evs = [] \<and> loaded_lines evs = []"
  by (auto simp: ValidateInitialization_def split: option.splits prod.splits if_splits)

lemma InitPlugin_factory_log:
  assumes "InitPlugin enabledFn ps name config ini w = Return ((res, None), w')"
  shows "\<exists>evs. log w' = log w @ evs \<and>
     factory_plugins evs = (case res of Some p \<Rightarrow> [(name, p)] | None \<Rightarrow> []) \<and>
     decorate_calls evs = [] \<and> loaded_lines evs = []"
proof (cases "name = []")
  case True
  with assms have "log w' = log w @ [InfoNoPluginSpecified]" "res = None"
    by (auto simp: InitPlugin_def)
  then show ?thesis by simp
next
  case False
  with assms obtain plugin found err w1 where
    g: "getPlugin enabledFn ps name config w = Return ((plugin, found, err), w1)"
    by (auto simp: InitPlugin_def split: completion.splits)
  from getPlugin_factory_log [OF g] obtain evs1 where
    l1: "log w1 = log w @ evs1"
    and f1: "factory_plugins evs1 = (case plugin of Some p \<Rightarrow> [(name, p)] | None \<Rightarrow> [])"
    and d1: "decorate_calls evs1 = []" "loaded_lines evs1 = []"
    by blast
  obtain verr w3 where
    v: "ValidateInitialization plugin (Initialize ini plugin w1) = (verr, w3)"
    by (cases "ValidateInitialization plugin (Initialize ini plugin w1)")
  from ValidateInitialization_quiet [OF v] obtain evs3 where
    l3: "log w3 = log (Initialize ini plugin w1) @ evs3"
    and f3: "factory_plugins evs3 = []" "decorate_calls evs3 = []" "loaded_lines evs3 = []"
    by blast
  from assms False g v have r: "res = plugin" "w' = w3"
    by (auto simp: InitPlugin_def split: option.splits if_splits)
  have "log w' = log w @ (evs1 @ map (\<lambda>f. CallInitialize f plugin) (initializers ini) @ evs3)"
    using r l1 l3 by (simp add: Initialize_runs)
  moreover have "factory_plugins
      (evs1 @ map (\<lambda>f. CallInitialize f plugin) (initializers ini) @ evs3) =
      (case res of Some p \<Rightarrow> [(name, p)] | None \<Rightarrow> [])"
    using f1 f3 r by simp
  moreover have "decorate_calls
      (evs1 @ map (\<lambda>f. CallInitialize f plugin) (initializers ini) @ evs3) = []"
    "loaded_lines
      (evs1 @ map (\<lambda>f. CallInitialize f plugin) (initializers ini) @ evs3) = []"
    using d1 f3 by simp_all
  ultimately show ?thesis by blast
qed

lemma built_from_refl: "built_from dec acc [] acc"
  by (simp add: built_from_def split: option.splits)

lemma built_from_trans:
  "built_from dec acc evs1 acc1 \<Longrightarrow> built_from dec acc1 evs2 acc2 \<Longrightarrow>
   built_from dec acc (evs1 @ evs2) acc2"
  by (auto simp: built_from_def split: option.splits)

lemma NewFromPlugins_body_built:
  assumes "NewFromPlugins_body enabledFn ps cp ini dec name acc w = Return (Inr acc', w')"
  shows "\<exists>evs. log w' = log w @ evs \<and> built_from dec acc evs acc'"
proof -
  obtain cfg cerr w1 where c: "call_ConfigFor cp name w = ((cfg, cerr), w1)"
    by (metis prod.collapse)
  then have l1: "log w1 = log w @ [CallConfigFor name cfg cerr]"
    by (auto simp: call_ConfigFor_def split: prod.splits)
  from assms c have ok: "cerr = None"
    by (auto simp: NewFromPlugins_body_def split: option.splits)
  with assms c obtain res w2 where
    i: "InitPlugin enabledFn ps name cfg ini w1 = Return ((res, None), w2)"
    by (auto simp: NewFromPlugins_body_def split: option.splits completion.splits)
  from InitPlugin_factory_log [OF i] obtain evs2 where
    l2: "log w2 = log w1 @ evs2"
    and f2: "factory_plugins evs2 = (case res of Some p \<Rightarrow> [(name, p)] | None \<Rightarrow> [])"
    and d2: "decorate_calls evs2 = []" "loaded_lines evs2 = []"
    by blast
  show ?thesis
  proof (cases res)
    case None
    with assms c i ok have "acc' = acc" "w' = w2"
      by (auto simp: NewFromPlugins_body_def)
    then have "log w' = log w @ (CallConfigFor name cfg cerr # evs2)"
      using l1 l2 by simp
    moreover have "built_from dec acc (CallConfigFor name cfg cerr # evs2) acc'"
      using f2 d2 None \<open>acc' = acc\<close> by (simp add: built_from_def split: option.splits)
    ultimately show ?thesis by blast
  next
    case (Some p)
    show ?thesis
    proof (cases dec)
      case None
      with assms c i ok Some have
        a: "acc' = \<lparr>handlers = handlers acc @ [p],
              mutationPlugins = (if Admit_m p \<noteq> None then mutationPlugins acc @ [name]
                                 else mutationPlugins acc),
              validationPlugins = (if Validate_m p \<noteq> None then validationPlugins acc @ [name]
                                   else validationPlugins acc)\<rparr>"
        and "w' = w2"
        by (auto simp: NewFromPlugins_body_def)
      then have "log w' = log w @ (CallConfigFor name cfg cerr # evs2)"
        using l1 l2 by simp
      moreover have "built_from dec acc (CallConfigFor name cfg cerr # evs2) acc'"
        using f2 d2 Some None a by (simp add: built_from_def)
      ultimately show ?thesis by blast
    next
      case (Some decorate)
      obtain h w3 where d: "call_Decorate decorate p name w2 = (h, w3)"
        by (cases "call_Decorate decorate p name w2")
      then have l3: "log w3 = log w2 @ [CallDecorate p name h]"
        by (auto simp: call_Decorate_def split: prod.splits)
      from assms c i ok \<open>res = Some p\<close> Some d have
        a: "acc' = \<lparr>handlers = handlers acc @ [h],
              mutationPlugins = (if Admit_m p \<noteq> None then mutationPlugins acc @ [name]
                                 else mutationPlugins acc),
              validationPlugins = (if Validate_m p \<noteq> None then validationPlugins acc @ [name]
                                   else validationPlugins acc)\<rparr>"
        and "w' = w3"
        by (auto simp: NewFromPlugins_body_def)
      then have "log w' = log w @ (CallConfigFor name cfg cerr # evs2 @ [CallDecorate p name h])"
        using l1 l2 l3 by simp
      moreover have "built_from dec acc
          (CallConfigFor name cfg cerr # evs2 @ [CallDecorate p name h]) acc'"
        using f2 d2 \<open>res = Some p\<close> Some a by (simp add: built_from_def)
      ultimately show ?thesis by blast
    qed
  qed
qed

lemma NewFromPlugins_loop_built:
  "NewFromPlugins_loop enabledFn ps cp ini dec names acc w = Return (Inr acc', w') \<Longrightarrow>
   \<exists>evs. log w' = log w @ evs \<and> built_from dec acc evs acc'"
proof (induction names arbitrary: acc w)
  case Nil
  then show ?case by (auto intro: built_from_refl)
next
  case (Cons name names)
  from Cons.prems obtain acc1 w1 where
    b: "NewFromPlugins_body enabledFn ps cp ini dec name acc w = Return (Inr acc1, w1)"
    and r: "NewFromPlugins_loop enabledFn ps cp ini dec names acc1 w1 = Return (Inr acc', w')"
    by (auto split: prod.splits sum.splits completion.splits)
  from NewFromPlugins_body_built [OF b] obtain evs1 where
    "log w1 = log w @ evs1" "built_from dec acc evs1 acc1" by blast
  moreover from Cons.IH [OF r] obtain evs2 where
    "log w' = log w1 @ evs2" "built_from dec acc1 evs2 acc'" by blast
  ultimately have "log w' = log w @ (evs1 @ evs2)" "built_from dec acc (evs1 @ evs2) acc'"
    by (auto intro: built_from_trans)
  then show ?case by blast
qed




lemma log_loaded_log:
  "\<exists>tl. log (log_loaded acc w) = log w @ tl \<and> factory_plugins tl = [] \<and>
     decorate_calls tl = [] \<and>
     loaded_lines tl =
       (if mutationPlugins acc = [] then [] else [(True, mutationPlugins acc)])
     @ (if validationPlugins acc = [] then [] else [(False, validationPlugins acc)])"
  by (simp add: log_loaded_def)



lemma call_ConfigFor_log:
  "call_ConfigFor cp name w = ((cfg, cerr), w1) \<Longrightarrow>
   log w1 = log w @ [CallConfigFor name cfg cerr]"
  by (auto simp: call_ConfigFor_def split: prod.splits)

lemma call_Decorate_log:
  "call_Decorate decorate p name w = (h, w1) \<Longrightarrow> log w1 = log w @ [CallDecorate p name h]"
  by (auto simp: call_Decorate_def split: prod.splits)

lemma NewFromPlugins_continues:
  assumes "NewFromPlugins_loop enabledFn ps cp ini dec pre
             \<lparr>handlers = [], mutationPlugins = [], validationPlugins = []\<rparr> w =
           Return (Inr acc, wa)"
    and "NewFromPlugins_body enabledFn ps cp ini dec name acc wa = Return (Inr acc1, w3)"
  shows "NewFromPlugins enabledFn ps (pre @ name # post) cp ini dec w =
     (case NewFromPlugins_loop enabledFn ps cp ini dec post acc1 w3 of
        Panic msg \<Rightarrow> Panic msg
      | Return (Inl e, w4) \<Rightarrow> Return ((None, Some e), w4)
      | Return (Inr acc', w4) \<Rightarrow> Return ((Some (handlers acc'), None), log_loaded acc' w4))"
  using assms by (simp add: NewFromPlugins_def NewFromPlugins_loop_append)

lemma NewFromPlugins_decorates_at:
  assumes pre: "NewFromPlugins_loop enabledFn ps cp ini (Some decorate) pre
             \<lparr>handlers = [], mutationPlugins = [], validationPlugins = []\<rparr> w =
           Return (Inr acc, wa)"
    and c: "call_ConfigFor cp name wa = ((cfg, None), w1)"
    and i: "InitPlugin enabledFn ps name cfg ini w1 = Return ((Some p, None), w2)"
    and d: "call_Decorate decorate p name w2 = (h, w3)"
    and r: "NewFromPlugins enabledFn ps (pre @ name # post) cp ini (Some decorate) w =
           Return ((Some chain, None), w')"
  shows "\<exists>evs. log w' = log w @ evs \<and>
     length (handlers acc) < length (decorate_calls evs) \<and>
     decorate_calls evs ! length (handlers acc) = (p, name, h)"
proof -
  let ?acc1 = "\<lparr>handlers = handlers acc @ [h],
      mutationPlugins = mutationPlugins acc @ (if Admit_m p \<noteq> None then [name] else []),
      validationPlugins = validationPlugins acc @ (if Validate_m p \<noteq> None then [name] else [])\<rparr>"
  from NewFromPlugins_loop_built [OF pre] obtain evs0 where
    l0: "log wa = log w @ evs0"
    and b0: "built_from (Some decorate)
      \<lparr>handlers = [], mutationPlugins = [], validationPlugins = []\<rparr> evs0 acc"
    by blast
  from b0 have n0: "length (decorate_calls evs0) = length (handlers acc)"
    by (simp add: built_from_def)
  from InitPlugin_factory_log [OF i] obtain evs2 where
    l2: "log w2 = log w1 @ evs2" and d2: "decorate_calls evs2 = []"
    by blast
  have l3: "log w3 = log w @ (evs0 @ CallConfigFor name cfg None # evs2 @ [CallDecorate p name h])"
    using l0 call_ConfigFor_log [OF c] l2 call_Decorate_log [OF d] by simp
  from NewFromPlugins_continues [OF pre NewFromPlugins_body_appends [OF c i d], of post] r
  obtain acc' w4 where
    post: "NewFromPlugins_loop enabledFn ps cp ini (Some decorate) post ?acc1 w3 =
      Return (Inr acc', w4)"
    and w': "w' = log_loaded acc' w4"
    by (auto split: completion.splits prod.splits sum.splits)
  from NewFromPlugins_loop_built [OF post] obtain evs4 where
    l4: "log w4 = log w3 @ evs4" by blast
  from log_loaded_log [of acc' w4] obtain tl where
    t: "log (log_loaded acc' w4) = log w4 @ tl" by blast
  let ?evs = "evs0 @ (CallConfigFor name cfg None # evs2 @ [CallDecorate p name h]) @ evs4 @ tl"
  have "log w' = log w @ ?evs"
    using w' t l4 l3 by simp
  moreover have dc: "decorate_calls ?evs =
      decorate_calls evs0 @ (p, name, h) # decorate_calls evs4 @ decorate_calls tl"
    using d2 by simp
  have "length (handlers acc) < length (decorate_calls ?evs)"
    unfolding dc using n0 by simp
  moreover have "decorate_calls ?evs ! length (handlers acc) = (p, name, h)"
    unfolding dc n0 [symmetric] by (simp add: nth_append)
  ultimately show ?thesis by blast
qed

lemma NewFromPlugins_decorated_built:
  assumes "NewFromPlugins enabledFn ps names cp ini (Some decorate) w =
    Return ((Some chain, None), w')"
  shows "\<exists>evs. log w' = log w @ evs \<and>
     chain = map (\<lambda>c. snd (snd c)) (decorate_calls evs) \<and>
     map (\<lambda>c. (fst (snd c), fst c)) (decorate_calls evs) = factory_plugins evs \<and>
     loaded_lines evs =
       (let mutating = map (\<lambda>c. fst (snd c))
              (filter (\<lambda>c. Admit_m (fst c) \<noteq> None) (decorate_calls evs));
            validating = map (\<lambda>c. fst (snd c))
              (filter (\<lambda>c. Validate_m (fst c) \<noteq> None) (decorate_calls evs))
        in (if mutating = [] then [] else [(True, mutating)])
         @ (if validating = [] then [] else [(False, validating)]))"
proof -
  from assms obtain acc w1 where
    l: "NewFromPlugins_loop enabledFn ps cp ini (Some decorate) names
      \<lparr>handlers = [], mutationPlugins = [], validationPlugins = []\<rparr> w = Return (Inr acc, w1)"
    and ch: "chain = handlers acc" and w': "w' = log_loaded acc w1"
    by (auto simp: NewFromPlugins_def split: prod.splits sum.splits completion.splits)
  from NewFromPlugins_loop_built [OF l] obtain evs where
    l1: "log w1 = log w @ evs"
    and b: "built_from (Some decorate)
      \<lparr>handlers = [], mutationPlugins = [], validationPlugins = []\<rparr> evs acc"
    by blast
  from log_loaded_log [of acc w1] obtain tl where
    t: "log (log_loaded acc w1) = log w1 @ tl" "decorate_calls tl = []"
      "loaded_lines tl =
         (if mutationPlugins acc = [] then [] else [(True, mutationPlugins acc)])
       @ (if validationPlugins acc = [] then [] else [(False, validationPlugins acc)])"
      "factory_plugins tl = []"
    by blast
  from b have fp: "factory_plugins evs =
      map (\<lambda>c. (fst (snd c), fst c)) (decorate_calls evs)"
    and h: "handlers acc = map (\<lambda>c. snd (snd c)) (decorate_calls evs)"
    and ll: "loaded_lines evs = []"
    and m: "mutationPlugins acc =
      map fst (filter (\<lambda>c. Admit_m (snd c) \<noteq> None) (factory_plugins evs))"
    and v: "validationPlugins acc =
      map fst (filter (\<lambda>c. Validate_m (snd c) \<noteq> None) (factory_plugins evs))"
    by (simp_all add: built_from_def)
  have m': "mutationPlugins acc = map (\<lambda>c. fst (snd c))
      (filter (\<lambda>c. Admit_m (fst c) \<noteq> None) (decorate_calls evs))"
    unfolding m fp by (simp add: filter_map comp_def)
  have v': "validationPlugins acc = map (\<lambda>c. fst (snd c))
      (filter (\<lambda>c. Validate_m (fst c) \<noteq> None) (decorate_calls evs))"
    unfolding v fp by (simp add: filter_map comp_def)
  have e: "log w' = log w @ (evs @ tl)"
    using w' l1 t(1) by simp
  have d: "decorate_calls (evs @ tl) = decorate_calls evs"
    using t(2) by simp
  have f: "factory_plugins (evs @ tl) = factory_plugins evs"
    using t(4) by simp
  have "loaded_lines (evs @ tl) =
      (if mutationPlugins acc = [] then [] else [(True, mutationPlugins acc)])
    @ (if validationPlugins acc = [] then [] else [(False, validationPlugins acc)])"
    using ll t(3) by simp
  then have "loaded_lines (evs @ tl) =
       (let mutating = map (\<lambda>c. fst (snd c))
              (filter (\<lambda>c. Admit_m (fst c) \<noteq> None) (decorate_calls (evs @ tl)));
            validating = map (\<lambda>c. fst (snd c))
              (filter (\<lambda>c. Validate_m (fst c) \<noteq> None) (decorate_calls (evs @ tl)))
        in (if mutating = [] then [] else [(True, mutating)])
         @ (if validating = [] then [] else [(False, validating)]))"
    unfolding d Let_def m' [symmetric] v' [symmetric] .
  moreover have "chain = map (\<lambda>c. snd (snd c)) (decorate_calls (evs @ tl))"
    unfolding d using ch h by simp
  moreover have "map (\<lambda>c. (fst (snd c), fst c)) (decorate_calls (evs @ tl)) =
      factory_plugins (evs @ tl)"
    unfolding d f using fp by simp
  ultimately show ?thesis using e by blast
qed

text \<open>
  C10. When a decorator is supplied and the construction succeeds, the decorator has been
  called on exactly the plugins the factories returned, each under its name and in order;
  the chain is the list of the wrappers the decorator returned, while the two lists that
  \<open>NewFromPlugins\<close> prints are taken from the plugins handed to the decorator: the
  mutating list is the names of those undecorated plugins that have \<^verbatim>\<open>Admit\<close>, the
  validating list the names of those that have \<^verbatim>\<open>Validate\<close>, each printed when it is not
  empty. The wrappers do not occur in the lists, so what they implement has no influence on
  them. Moreover, whenever the loop has passed a prefix of the names, \<open>InitPlugin\<close>
  returns the plugin \<open>p\<close> for the next name and the decorator returns the wrapper \<open>h\<close>
  for it, the construction goes on with \<open>h\<close> appended to the handlers and the name
  appended to the mutating tally if \<open>p\<close> has \<^verbatim>\<open>Admit\<close> and to the validating tally if
  \<open>p\<close> has \<^verbatim>\<open>Validate\<close>; and in a successful construction the decorator call at that
  position of the chain is the one on \<open>p\<close> under this name that returned \<open>h\<close>.
\<close>

theorem NewFromPlugins_classifies_undecorated:
  "(\<forall>chain w'.
      NewFromPlugins enabledFn ps names cp ini (Some decorate) w =
        Return ((Some chain, None), w') \<longrightarrow>
      (\<exists>evs. log w' = log w @ evs \<and>
         chain = map (\<lambda>c. snd (snd c)) (decorate_calls evs) \<and>
         map (\<lambda>c. (fst (snd c), fst c)) (decorate_calls evs) = factory_plugins evs \<and>
         loaded_lines evs =
           (let mutating = map (\<lambda>c. fst (snd c))
                  (filter (\<lambda>c. Admit_m (fst c) \<noteq> None) (decorate_calls evs));
                validating = map (\<lambda>c. fst (snd c))
                  (filter (\<lambda>c. Validate_m (fst c) \<noteq> None) (decorate_calls evs))
            in (if mutating = [] then [] else [(True, mutating)])
             @ (if validating = [] then [] else [(False, validating)])))) \<and>
   (\<forall>pre name post acc wa cfg w1 p w2 h w3.
      names = pre @ name # post \<and>
      NewFromPlugins_loop enabledFn ps cp ini (Some decorate) pre
        \<lparr>handlers = [], mutationPlugins = [], validationPlugins = []\<rparr> w =
        Return (Inr acc, wa) \<and>
      call_ConfigFor cp name wa = ((cfg, None), w1) \<and>
      InitPlugin enabledFn ps name cfg ini w1 = Return ((Some p, None), w2) \<and>
      call_Decorate decorate p name w2 = (h, w3) \<longrightarrow>
      NewFromPlugins enabledFn ps names cp ini (Some decorate) w =
        (case NewFromPlugins_loop enabledFn ps cp ini (Some decorate) post
                \<lparr>handlers = handlers acc @ [h],
                 mutationPlugins =
                   mutationPlugins acc @ (if Admit_m p \<noteq> None then [name] else []),
                 validationPlugins =
                   validationPlugins acc @ (if Validate_m p \<noteq> None then [name] else [])\<rparr>
                w3 of
           Panic msg \<Rightarrow> Panic msg
         | Return (Inl e, w4) \<Rightarrow> Return ((None, Some e), w4)
         | Return (Inr acc', w4) \<Rightarrow>
             Return ((Some (handlers acc'), None), log_loaded acc' w4)) \<and>
      (\<forall>chain w'.
         NewFromPlugins enabledFn ps names cp ini (Some decorate) w =
           Return ((Some chain, None), w') \<longrightarrow>
         (\<exists>evs. log w' = log w @ evs \<and>
            length (handlers acc) < length (decorate_calls evs) \<and>
            decorate_calls evs ! length (handlers acc) = (p, name, h))))"
proof -
  let ?init = "\<lparr>handlers = [], mutationPlugins = [], validationPlugins = []\<rparr> :: 'a built"
  have P: "NewFromPlugins enabledFn ps names cp ini (Some decorate) w =
        (case NewFromPlugins_loop enabledFn ps cp ini (Some decorate) post
                \<lparr>handlers = handlers acc @ [h],
                 mutationPlugins =
                   mutationPlugins acc @ (if Admit_m p \<noteq> None then [name] else []),
                 validationPlugins =
                   validationPlugins acc @ (if Validate_m p \<noteq> None then [name] else [])\<rparr>
                w3 of
           Panic msg \<Rightarrow> Panic msg
         | Return (Inl e, w4) \<Rightarrow> Return ((None, Some e), w4)
         | Return (Inr acc', w4) \<Rightarrow>
             Return ((Some (handlers acc'), None), log_loaded acc' w4)) \<and>
      (\<forall>chain w'.
         NewFromPlugins enabledFn ps names cp ini (Some decorate) w =
           Return ((Some chain, None), w') \<longrightarrow>
         (\<exists>evs. log w' = log w @ evs \<and>
            length (handlers acc) < length (decorate_calls evs) \<and>
            decorate_calls evs ! length (handlers acc) = (p, name, h)))"
    if a: "names = pre @ name # post \<and>
      NewFromPlugins_loop enabledFn ps cp ini (Some decorate) pre ?init w =
        Return (Inr acc, wa) \<and>
      call_ConfigFor cp name wa = ((cfg, None), w1) \<and>
      InitPlugin enabledFn ps name cfg ini w1 = Return ((Some p, None), w2) \<and>
      call_Decorate decorate p name w2 = (h, w3)"
    for pre name post acc wa cfg w1 p w2 h w3
  proof -
    from a have n: "names = pre @ name # post"
      and l: "NewFromPlugins_loop enabledFn ps cp ini (Some decorate) pre ?init w =
        Return (Inr acc, wa)"
      and c: "call_ConfigFor cp name wa = ((cfg, None), w1)"
      and i: "InitPlugin enabledFn ps name cfg ini w1 = Return ((Some p, None), w2)"
      and d: "call_Decorate decorate p name w2 = (h, w3)"
      by simp_all
    have "NewFromPlugins enabledFn ps names cp ini (Some decorate) w =
        (case NewFromPlugins_loop enabledFn ps cp ini (Some decorate) post
                \<lparr>handlers = handlers acc @ [h],
                 mutationPlugins =
                   mutationPlugins acc @ (if Admit_m p \<noteq> None then [name] else []),
                 validationPlugins =
                   validationPlugins acc @ (if Validate_m p \<noteq> None then [name] else [])\<rparr>
                w3 of
           Panic msg \<Rightarrow> Panic msg
         | Return (Inl e, w4) \<Rightarrow> Return ((None, Some e), w4)
         | Return (Inr acc', w4) \<Rightarrow>
             Return ((Some (handlers acc'), None), log_loaded acc' w4))"
      unfolding n
      by (rule NewFromPlugins_continues [OF l NewFromPlugins_body_appends [OF c i d]])
    moreover have "\<exists>evs. log w' = log w @ evs \<and>
            length (handlers acc) < length (decorate_calls evs) \<and>
            decorate_calls evs ! length (handlers acc) = (p, name, h)"
      if "NewFromPlugins enabledFn ps names cp ini (Some decorate) w =
           Return ((Some chain, None), w')" for chain w'
      using NewFromPlugins_decorates_at [OF l c i d, of post chain w'] that n by simp
    ultimately show ?thesis by blast
  qed
  have Q: "\<exists>evs. log w' = log w @ evs \<and>
         chain = map (\<lambda>c. snd (snd c)) (decorate_calls evs) \<and>
         map (\<lambda>c. (fst (snd c), fst c)) (decorate_calls evs) = factory_plugins evs \<and>
         loaded_lines evs =
           (let mutating = map (\<lambda>c. fst (snd c))
                  (filter (\<lambda>c. Admit_m (fst c) \<noteq> None) (decorate_calls evs));
                validating = map (\<lambda>c. fst (snd c))
                  (filter (\<lambda>c. Validate_m (fst c) \<noteq> None) (decorate_calls evs))
            in (if mutating = [] then [] else [(True, mutating)])
             @ (if validating = [] then [] else [(False, validating)]))"
    if "NewFromPlugins enabledFn ps names cp ini (Some decorate) w =
        Return ((Some chain, None), w')" for chain w'
    by (rule NewFromPlugins_decorated_built [OF that])
  from P Q show ?thesis
    by (simp only: split_paired_All split_paired_Ex) blast
qed




lemma struct_config_Defaulter:
  "call_ConfigFor struct_config
     ''Defaulter'' world0 =
   ((ValueReader StructKind (Source pizza_config None), None),
    \<lparr>mem = mem0,
     log = [CallConfigFor ''Defaulter'' (ValueReader StructKind (Source pizza_config None)) None]\<rparr>)"
  by (simp add: construction_defs struct_config_def)



lemma metered_chain_built:
  "NewFromPlugins PluginEnabledFn_default restaurant_plugins
     [''PizzaToppings'', ''Defaulter''] no_config
     (PluginInitializers [Initializer inject_informer]) (Some with_metrics) world0 =
   Return ((Some [metrics_wrapper wants_informer, metrics_wrapper mutator_P1], None),
    \<lparr>mem = mem0\<lparr>user := 7\<rparr>,
     log = [CallConfigFor ''PizzaToppings'' NilInterface None,
            CallPluginEnabledFn ''PizzaToppings'' NilInterface True,
            CallFactory ''PizzaToppings'' NilInterface (Some wants_informer) None,
            CallInitialize inject_informer (Some wants_informer),
            CallValidateInitialization wants_informer None,
            CallDecorate wants_informer ''PizzaToppings'' (metrics_wrapper wants_informer),
            CallConfigFor ''Defaulter'' NilInterface None,
            CallPluginEnabledFn ''Defaulter'' NilInterface True,
            CallFactory ''Defaulter'' NilInterface (Some mutator_P1) None,
            CallInitialize inject_informer (Some mutator_P1),
            CallDecorate mutator_P1 ''Defaulter'' (metrics_wrapper mutator_P1),
            InfoLoadedMutating [''Defaulter''],
            InfoLoadedValidating [''PizzaToppings'']]\<rparr>)"
  by (simp add: NewFromPlugins_def log_loaded_def construction_defs inject_informer_def
      mutator_P1_def wants_informer_def mem0_def with_metrics_def)

lemma PizzaToppings_decorated:
  "NewFromPlugins_loop PluginEnabledFn_default restaurant_plugins no_config
     (PluginInitializers [Initializer inject_informer]) (Some with_metrics) [''PizzaToppings'']
     \<lparr>handlers = [], mutationPlugins = [], validationPlugins = []\<rparr> world0 =
   Return
    (Inr \<lparr>handlers = [metrics_wrapper wants_informer], mutationPlugins = [],
          validationPlugins = [''PizzaToppings'']\<rparr>,
     \<lparr>mem = mem0\<lparr>user := 7\<rparr>,
      log = [CallConfigFor ''PizzaToppings'' NilInterface None,
             CallPluginEnabledFn ''PizzaToppings'' NilInterface True,
             CallFactory ''PizzaToppings'' NilInterface (Some wants_informer) None,
             CallInitialize inject_informer (Some wants_informer),
             CallValidateInitialization wants_informer None,
             CallDecorate wants_informer ''PizzaToppings''
               (metrics_wrapper wants_informer)]\<rparr>)"
  by (simp add: construction_defs inject_informer_def wants_informer_def mem0_def
      with_metrics_def)

lemma Defaulter_config_metered:
  "call_ConfigFor no_config ''Defaulter''
     \<lparr>mem = mem0\<lparr>user := 7\<rparr>,
      log = [CallConfigFor ''PizzaToppings'' NilInterface None,
             CallPluginEnabledFn ''PizzaToppings'' NilInterface True,
             CallFactory ''PizzaToppings'' NilInterface (Some wants_informer) None,
             CallInitialize inject_informer (Some wants_informer),
             CallValidateInitialization wants_informer None,
             CallDecorate wants_informer ''PizzaToppings''
               (metrics_wrapper wants_informer)]\<rparr> =
   ((NilInterface, None),
    \<lparr>mem = mem0\<lparr>user := 7\<rparr>,
     log = [CallConfigFor ''PizzaToppings'' NilInterface None,
            CallPluginEnabledFn ''PizzaToppings'' NilInterface True,
            CallFactory ''PizzaToppings'' NilInterface (Some wants_informer) None,
            CallInitialize inject_informer (Some wants_informer),
            CallValidateInitialization wants_informer None,
            CallDecorate wants_informer ''PizzaToppings'' (metrics_wrapper wants_informer),
            CallConfigFor ''Defaulter'' NilInterface None]\<rparr>)"
  by (simp add: construction_defs)

lemma Defaulter_InitPlugin_metered:
  "InitPlugin PluginEnabledFn_default restaurant_plugins ''Defaulter'' NilInterface
     (PluginInitializers [Initializer inject_informer])
     \<lparr>mem = mem0\<lparr>user := 7\<rparr>,
      log = [CallConfigFor ''PizzaToppings'' NilInterface None,
             CallPluginEnabledFn ''PizzaToppings'' NilInterface True,
             CallFactory ''PizzaToppings'' NilInterface (Some wants_informer) None,
             CallInitialize inject_informer (Some wants_informer),
             CallValidateInitialization wants_informer None,
             CallDecorate wants_informer ''PizzaToppings'' (metrics_wrapper wants_informer),
             CallConfigFor ''Defaulter'' NilInterface None]\<rparr> =
   Return ((Some mutator_P1, None),
    \<lparr>mem = mem0\<lparr>user := 7\<rparr>,
     log = [CallConfigFor ''PizzaToppings'' NilInterface None,
            CallPluginEnabledFn ''PizzaToppings'' NilInterface True,
            CallFactory ''PizzaToppings'' NilInterface (Some wants_informer) None,
            CallInitialize inject_informer (Some wants_informer),
            CallValidateInitialization wants_informer None,
            CallDecorate wants_informer ''PizzaToppings'' (metrics_wrapper wants_informer),
            CallConfigFor ''Defaulter'' NilInterface None,
            CallPluginEnabledFn ''Defaulter'' NilInterface True,
            CallFactory ''Defaulter'' NilInterface (Some mutator_P1) None,
            CallInitialize inject_informer (Some mutator_P1)]\<rparr>)"
  by (simp add: construction_defs inject_informer_def mutator_P1_def mem0_def)

lemma Defaulter_decorated:
  "call_Decorate with_metrics mutator_P1 ''Defaulter''
     \<lparr>mem = mem0\<lparr>user := 7\<rparr>,
      log = [CallConfigFor ''PizzaToppings'' NilInterface None,
             CallPluginEnabledFn ''PizzaToppings'' NilInterface True,
             CallFactory ''PizzaToppings'' NilInterface (Some wants_informer) None,
             CallInitialize inject_informer (Some wants_informer),
             CallValidateInitialization wants_informer None,
             CallDecorate wants_informer ''PizzaToppings'' (metrics_wrapper wants_informer),
             CallConfigFor ''Defaulter'' NilInterface None,
             CallPluginEnabledFn ''Defaulter'' NilInterface True,
             CallFactory ''Defaulter'' NilInterface (Some mutator_P1) None,
             CallInitialize inject_informer (Some mutator_P1)]\<rparr> =
   (metrics_wrapper mutator_P1,
    \<lparr>mem = mem0\<lparr>user := 7\<rparr>,
     log = [CallConfigFor ''PizzaToppings'' NilInterface None,
            CallPluginEnabledFn ''PizzaToppings'' NilInterface True,
            CallFactory ''PizzaToppings'' NilInterface (Some wants_informer) None,
            CallInitialize inject_informer (Some wants_informer),
            CallValidateInitialization wants_informer None,
            CallDecorate wants_informer ''PizzaToppings'' (metrics_wrapper wants_informer),
            CallConfigFor ''Defaulter'' NilInterface None,
            CallPluginEnabledFn ''Defaulter'' NilInterface True,
            CallFactory ''Defaulter'' NilInterface (Some mutator_P1) None,
            CallInitialize inject_informer (Some mutator_P1),
            CallDecorate mutator_P1 ''Defaulter'' (metrics_wrapper mutator_P1)]\<rparr>)"
  by (simp add: call_Decorate_def with_metrics_def)

theorem NewFromPlugins_classifies_undecorated_witness:
  "NewFromPlugins PluginEnabledFn_default restaurant_plugins
     [''PizzaToppings'', ''Defaulter''] no_config
     (PluginInitializers [Initializer inject_informer]) (Some with_metrics) world0 =
   Return ((Some [metrics_wrapper wants_informer, metrics_wrapper mutator_P1], None),
    \<lparr>mem = mem0\<lparr>user := 7\<rparr>,
     log = [CallConfigFor ''PizzaToppings'' NilInterface None,
            CallPluginEnabledFn ''PizzaToppings'' NilInterface True,
            CallFactory ''PizzaToppings'' NilInterface (Some wants_informer) None,
            CallInitialize inject_informer (Some wants_informer),
            CallValidateInitialization wants_informer None,
            CallDecorate wants_informer ''PizzaToppings'' (metrics_wrapper wants_informer),
            CallConfigFor ''Defaulter'' NilInterface None,
            CallPluginEnabledFn ''Defaulter'' NilInterface True,
            CallFactory ''Defaulter'' NilInterface (Some mutator_P1) None,
            CallInitialize inject_informer (Some mutator_P1),
            CallDecorate mutator_P1 ''Defaulter'' (metrics_wrapper mutator_P1),
            InfoLoadedMutating [''Defaulter''],
            InfoLoadedValidating [''PizzaToppings'']]\<rparr>) \<and>
   Admit_m (metrics_wrapper wants_informer) \<noteq> None \<and>
   Validate_m (metrics_wrapper mutator_P1) \<noteq> None \<and>
   Admit_m wants_informer = None \<and> Validate_m mutator_P1 = None \<and>
   (\<exists>evs. evs = [CallConfigFor ''PizzaToppings'' NilInterface None,
            CallPluginEnabledFn ''PizzaToppings'' NilInterface True,
            CallFactory ''PizzaToppings'' NilInterface (Some wants_informer) None,
            CallInitialize inject_informer (Some wants_informer),
            CallValidateInitialization wants_informer None,
            CallDecorate wants_informer ''PizzaToppings'' (metrics_wrapper wants_informer),
            CallConfigFor ''Defaulter'' NilInterface None,
            CallPluginEnabledFn ''Defaulter'' NilInterface True,
            CallFactory ''Defaulter'' NilInterface (Some mutator_P1) None,
            CallInitialize inject_informer (Some mutator_P1),
            CallDecorate mutator_P1 ''Defaulter'' (metrics_wrapper mutator_P1),
            InfoLoadedMutating [''Defaulter''],
            InfoLoadedValidating [''PizzaToppings'']] \<and>
      decorate_calls evs =
        [(wants_informer, ''PizzaToppings'', metrics_wrapper wants_informer),
         (mutator_P1, ''Defaulter'', metrics_wrapper mutator_P1)] \<and>
      factory_plugins evs = [(''PizzaToppings'', wants_informer), (''Defaulter'', mutator_P1)] \<and>
      loaded_lines evs = [(True, [''Defaulter'']), (False, [''PizzaToppings''])] \<and>
      decorate_calls evs ! 1 = (mutator_P1, ''Defaulter'', metrics_wrapper mutator_P1))"
proof -
  note built = NewFromPlugins_classifies_undecorated [THEN conjunct1, rule_format,
      OF metered_chain_built]
  note step = NewFromPlugins_classifies_undecorated [THEN conjunct2, rule_format,
      where names = "[''PizzaToppings'', ''Defaulter'']" and pre = "[''PizzaToppings'']"
        and name = "''Defaulter''" and post = "[]" and w = world0,
      OF conjI [OF _ conjI [OF PizzaToppings_decorated conjI [OF Defaulter_config_metered
        conjI [OF Defaulter_InitPlugin_metered Defaulter_decorated]]]],
      THEN conjunct2, rule_format, OF _ metered_chain_built]
  have "1 < length (decorate_calls
            [CallConfigFor ''PizzaToppings'' NilInterface None,
            CallPluginEnabledFn ''PizzaToppings'' NilInterface True,
            CallFactory ''PizzaToppings'' NilInterface (Some wants_informer) None,
            CallInitialize inject_informer (Some wants_informer),
            CallValidateInitialization wants_informer None,
            CallDecorate wants_informer ''PizzaToppings'' (metrics_wrapper wants_informer),
            CallConfigFor ''Defaulter'' NilInterface None,
            CallPluginEnabledFn ''Defaulter'' NilInterface True,
            CallFactory ''Defaulter'' NilInterface (Some mutator_P1) None,
            CallInitialize inject_informer (Some mutator_P1),
            CallDecorate mutator_P1 ''Defaulter'' (metrics_wrapper mutator_P1),
            InfoLoadedMutating [''Defaulter''],
            InfoLoadedValidating [''PizzaToppings'']]) \<and>
        decorate_calls
            [CallConfigFor ''PizzaToppings'' NilInterface None,
            CallPluginEnabledFn ''PizzaToppings'' NilInterface True,
            CallFactory ''PizzaToppings'' NilInterface (Some wants_informer) None,
            CallInitialize inject_informer (Some wants_informer),
            CallValidateInitialization wants_informer None,
            CallDecorate wants_informer ''PizzaToppings'' (metrics_wrapper wants_informer),
            CallConfigFor ''Defaulter'' NilInterface None,
            CallPluginEnabledFn ''Defaulter'' NilInterface True,
            CallFactory ''Defaulter'' NilInterface (Some mutator_P1) None,
            CallInitialize inject_informer (Some mutator_P1),
            CallDecorate mutator_P1 ''Defaulter'' (metrics_wrapper mutator_P1),
            InfoLoadedMutating [''Defaulter''],
            InfoLoadedValidating [''PizzaToppings'']] ! 1 =
          (mutator_P1, ''Defaulter'', metrics_wrapper mutator_P1)"
    using step by (simp add: world0_def)
  with built metered_chain_built show ?thesis
    by (simp add: world0_def metrics_wrapper_def wants_informer_def mutator_P1_def)
qed

end
